theory Spec2Isabelle
  imports Complex_Main "HOL-Library.AList" "HOL-Library.Sublist"
begin

section \<open>Values, rows and frames\<close>

text \<open>
  The pipeline moves pandas frames between the web service and Delta tables. A frame is
  modelled by its column labels and its rows, a row by the cells it holds under their
  labels; a label a row does not hold reads as the missing value, which is what pandas
  fills in when frames of different width are concatenated.  \<open>Null\<close> stands for every
  missing value of pandas (\<open>None\<close>, \<open>NaN\<close>, \<open>NaT\<close>), numbers are exact rationals, and an
  instant is the number of microseconds since the epoch in UTC.
\<close>

datatype json =
    JNull
  | JBool bool
  | JNum rat
  | JStr string
  | JArr "json list"
  | JObj "(string \<times> json) list"

datatype error =
    RequestException string
  | AttributeError
  | KeyError "string list"
  | NotImplementedError
  | TypeError
  | ValueError
  | DeltaWriteError

datatype cell = Null | Num rat | Str string | Time int | Other json

type_synonym row = "(string \<times> cell) list"

record dataframe =
  columns :: "string list"
  rows :: "row list"

definition cell_of :: "row \<Rightarrow> string \<Rightarrow> cell" where
  "cell_of r c = (case map_of r c of None \<Rightarrow> Null | Some v \<Rightarrow> v)"

definition row_key :: "string list \<Rightarrow> row \<Rightarrow> cell list" where
  "row_key subs r = map (cell_of r) subs"

definition empty_frame :: dataframe where
  "empty_frame = \<lparr>columns = [], rows = []\<rparr>"

text \<open>\<open>df.empty\<close>: one of the two axes has length zero.\<close>

definition df_empty :: "dataframe \<Rightarrow> bool" where
  "df_empty df \<longleftrightarrow> rows df = [] \<or> columns df = []"

text \<open>\<open>pd.concat([a, b], ignore_index=True)\<close>: the rows of \<open>a\<close>, then those of \<open>b\<close>,
  under the union of the labels.\<close>

definition pd_concat :: "dataframe \<Rightarrow> dataframe \<Rightarrow> dataframe" where
  "pd_concat a b =
     \<lparr>columns = columns a @ filter (\<lambda>c. c \<notin> set (columns a)) (columns b),
      rows = rows a @ rows b\<rparr>"

text \<open>\<open>drop_duplicates\<close> with its default \<open>keep='first'\<close>: a row is dropped when an
  earlier row has the same cells under \<open>subset\<close>. An empty frame is returned as it is; a
  label of \<open>subset\<close> that the frame lacks raises \<open>KeyError\<close>.\<close>

fun keep_first :: "'k list \<Rightarrow> ('r \<Rightarrow> 'k) \<Rightarrow> 'r list \<Rightarrow> 'r list" where
  "keep_first seen key [] = []"
| "keep_first seen key (r # rs) =
     (if key r \<in> set seen then keep_first seen key rs
      else r # keep_first (key r # seen) key rs)"

definition drop_duplicates :: "string list \<Rightarrow> dataframe \<Rightarrow> error + dataframe" where
  "drop_duplicates subs df =
     (if df_empty df then Inr df
      else if \<not> set subs \<subseteq> set (columns df)
        then Inl (KeyError (filter (\<lambda>c. c \<notin> set (columns df)) subs))
      else Inr (df\<lparr>rows := keep_first [] (row_key subs) (rows df)\<rparr>))"

section \<open>The table store\<close>

text \<open>
  The state of one Delta location is \<open>None\<close> while no table exists there
  (\<open>is_delta_table\<close> is false) and otherwise the frame last written with the partition
  labels it was written under; the functions that test \<open>is_delta_table\<close> do so by a case
  distinction on this state.

  \<open>write_deltalake\<close> is always called in mode \<open>overwrite\<close> and never with a schema mode,
  so it replaces the stored frame only by a frame of the same schema. The schema of a
  frame is modelled by its column labels in their order; the types of the columns are not
  tracked. A frame without columns is refused, and so are partition labels that are not
  columns of the frame. On an existing table a frame with other labels is refused, and so
  are partition labels other than the table's; no partition labels means the table's
  own. A refused write raises, and the state stays as it was.
\<close>

record delta_table =
  data :: dataframe
  partition_by :: "string list"

type_synonym delta_path = "delta_table option"

definition is_delta_table :: "delta_path \<Rightarrow> bool" where
  "is_delta_table p \<longleftrightarrow> p \<noteq> None"

definition write_deltalake :: "delta_path \<Rightarrow> dataframe \<Rightarrow> string list \<Rightarrow> error + delta_path" where
  "write_deltalake delta_path df partition_cols =
     (case delta_path of
        None \<Rightarrow>
          if columns df = [] then Inl DeltaWriteError
          else if set partition_cols \<subseteq> set (columns df)
            then Inr (Some \<lparr>data = df, partition_by = partition_cols\<rparr>)
          else Inl DeltaWriteError
      | Some dt \<Rightarrow>
          if columns df = columns (data dt) then
            (if partition_cols = [] then Inr (Some \<lparr>data = df, partition_by = partition_by dt\<rparr>)
             else if partition_cols = partition_by dt
               then Inr (Some \<lparr>data = df, partition_by = partition_by dt\<rparr>)
             else Inl DeltaWriteError)
          else Inl DeltaWriteError)"

section \<open>Upsert\<close>

definition upsert_delta ::
  "dataframe \<Rightarrow> delta_path \<Rightarrow> string list \<Rightarrow> string list \<Rightarrow> error + delta_path" where
  "upsert_delta df_new delta_path key_cols partition_cols =
     (case delta_path of
        None \<Rightarrow> write_deltalake delta_path df_new partition_cols
      | Some dt \<Rightarrow>
          (case drop_duplicates key_cols (pd_concat (data dt) df_new) of
             Inl e \<Rightarrow> Inl e
           | Inr df_all \<Rightarrow> write_deltalake delta_path df_all partition_cols))"

section \<open>Calling the web service\<close>

text \<open>
  The network is the outcome of each attempt at the URL called, numbered from 1 as the
  loop numbers them: the parsed body, or the exception raised inside the \<open>try\<close> block. Only a
  \<open>requests.RequestException\<close> is caught; the log counts the requests sent and the
  seconds slept. A loop that ends without returning (\<open>retries\<close> below 1) yields \<open>None\<close>.
\<close>

record api_log =
  requests_sent :: nat
  seconds_slept :: nat

fun is_request_exception :: "error \<Rightarrow> bool" where
  "is_request_exception (RequestException _) = True"
| "is_request_exception _ = False"

function call_api_from ::
  "(nat \<Rightarrow> error + json) \<Rightarrow> nat \<Rightarrow> nat \<Rightarrow> api_log \<Rightarrow> (error + json) \<times> api_log" where
  "call_api_from net retries attempt lg =
     (if retries < attempt then (Inr JNull, lg)
      else
        (let lg1 = lg\<lparr>requests_sent := requests_sent lg + 1\<rparr> in
         case net attempt of
           Inr body \<Rightarrow> (Inr body, lg1)
         | Inl err \<Rightarrow>
             if is_request_exception err then
               (if attempt = retries then (Inl err, lg1)
                else call_api_from net retries (Suc attempt)
                       (lg1\<lparr>seconds_slept := seconds_slept lg1 + 2\<rparr>))
             else (Inl err, lg1)))"
  by pat_completeness auto
termination
  by (relation "measure (\<lambda>(net, retries, attempt, lg). Suc retries - attempt)") auto

declare call_api_from.simps [simp del]

definition call_api :: "(nat \<Rightarrow> error + json) \<Rightarrow> nat \<Rightarrow> (error + json) \<times> api_log" where
  "call_api net retries = call_api_from net retries 1 \<lparr>requests_sent = 0, seconds_slept = 0\<rparr>"

section \<open>Classification\<close>

fun classify_intensity :: "rat option \<Rightarrow> string" where
  "classify_intensity None = ''unknown''"
| "classify_intensity (Some v) =
     (if v \<le> 100 then ''low''
      else if v \<le> 200 then ''moderate''
      else if v \<le> 300 then ''high''
      else ''very high'')"

fun classify_factor :: "rat option \<Rightarrow> string" where
  "classify_factor None = ''unknown''"
| "classify_factor (Some v) =
     (if v \<le> 150 then ''low''
      else if v \<le> 400 then ''medium''
      else ''high'')"

section \<open>Reading the web service\<close>

text \<open>
  \<open>data.get("data", [])\<close> needs a dict: on any other parsed body the attribute \<open>get\<close> is
  missing. \<open>pd.json_normalize\<close> turns a list of objects into one row per object, nested
  objects flattened with dotted labels; a single object is one row, an empty list the
  frame without rows and columns, and anything else is refused.
\<close>

definition dict_get :: "json \<Rightarrow> string \<Rightarrow> json \<Rightarrow> error + json" where
  "dict_get d k dflt =
     (case d of
        JObj kvs \<Rightarrow> Inr (case map_of kvs k of None \<Rightarrow> dflt | Some v \<Rightarrow> v)
      | _ \<Rightarrow> Inl AttributeError)"

fun cell_of_json :: "json \<Rightarrow> cell" where
  "cell_of_json JNull = Null"
| "cell_of_json (JNum n) = Num n"
| "cell_of_json (JStr s) = Str s"
| "cell_of_json v = Other v"

fun flatten :: "string \<Rightarrow> json \<Rightarrow> row" where
  "flatten name (JObj kvs) = concat (map (\<lambda>(k, v). flatten (name @ ''.'' @ k) v) kvs)"
| "flatten name v = [(name, cell_of_json v)]"

fun record_row :: "json \<Rightarrow> row option" where
  "record_row (JObj kvs) = Some (concat (map (\<lambda>(k, v). flatten k v) kvs))"
| "record_row _ = None"

definition frame_of_rows :: "row list \<Rightarrow> dataframe" where
  "frame_of_rows rs = \<lparr>columns = keep_first [] id (concat (map (map fst) rs)), rows = rs\<rparr>"

fun json_normalize :: "json \<Rightarrow> error + dataframe" where
  "json_normalize (JArr []) = Inr empty_frame"
| "json_normalize (JArr xs) =
     (if list_all (\<lambda>x. record_row x \<noteq> None) xs
      then Inr (frame_of_rows (map (\<lambda>x. the (record_row x)) xs))
      else Inl AttributeError)"
| "json_normalize (JObj kvs) = Inr (frame_of_rows [the (record_row (JObj kvs))])"
| "json_normalize _ = Inl NotImplementedError"

section \<open>Instants, numbers and their text\<close>

text \<open>
  What pandas reads out of a text (or any other object) as an instant or as a number is
  left open: the two readers are parameters of the model, and \<open>None\<close> is their answer
  for what they cannot read. A missing value is read as missing, and a cell that already
  is an instant or a number is read as itself.
\<close>

datatype timestamp = NaT | Timestamp int

record parsers =
  parse_datetime :: "cell \<Rightarrow> timestamp option"
  parse_number :: "cell \<Rightarrow> rat option"

definition to_datetime :: "parsers \<Rightarrow> cell \<Rightarrow> timestamp option" where
  "to_datetime P c =
     (case c of
        Null \<Rightarrow> Some NaT
      | Time t \<Rightarrow> Some (Timestamp t)
      | _ \<Rightarrow> parse_datetime P c)"

text \<open>\<open>errors="coerce"\<close>: what cannot be read becomes \<open>NaT\<close>, respectively \<open>NaN\<close>.\<close>

definition to_datetime_coerce :: "parsers \<Rightarrow> cell \<Rightarrow> timestamp" where
  "to_datetime_coerce P c = (case to_datetime P c of None \<Rightarrow> NaT | Some t \<Rightarrow> t)"

definition to_numeric_coerce :: "parsers \<Rightarrow> cell \<Rightarrow> rat option" where
  "to_numeric_coerce P c =
     (case c of Null \<Rightarrow> None | Num n \<Rightarrow> Some n | _ \<Rightarrow> parse_number P c)"

fun time_cell :: "timestamp \<Rightarrow> cell" where
  "time_cell NaT = Null"
| "time_cell (Timestamp t) = Time t"

fun num_cell :: "rat option \<Rightarrow> cell" where
  "num_cell None = Null"
| "num_cell (Some n) = Num n"

text \<open>Arithmetic and comparison with \<open>NaT\<close>: a sum with \<open>NaT\<close> is \<open>NaT\<close>, every ordering
  comparison with \<open>NaT\<close> is false, and the maximum of a series skips \<open>NaT\<close>.\<close>

definition timedelta_minutes :: "int \<Rightarrow> int" where
  "timedelta_minutes n = n * 60000000"

definition timedelta_days :: "int \<Rightarrow> int" where
  "timedelta_days n = n * 86400000000"

fun add_timedelta :: "timestamp \<Rightarrow> int \<Rightarrow> timestamp" where
  "add_timedelta NaT d = NaT"
| "add_timedelta (Timestamp t) d = Timestamp (t + d)"

fun timestamp_ge :: "timestamp \<Rightarrow> timestamp \<Rightarrow> bool" where
  "timestamp_ge (Timestamp a) (Timestamp b) = (b \<le> a)"
| "timestamp_ge _ _ = False"

fun max_timestamp :: "timestamp \<Rightarrow> timestamp \<Rightarrow> timestamp" where
  "max_timestamp NaT b = b"
| "max_timestamp a NaT = a"
| "max_timestamp (Timestamp a) (Timestamp b) = Timestamp (max a b)"

definition series_max :: "timestamp list \<Rightarrow> timestamp" where
  "series_max ts = fold max_timestamp ts NaT"

text \<open>The civil calendar of an instant, and the ISO text of \<open>isoformat\<close>:
  \<open>YYYY-MM-DDTHH:MM:SS[.ffffff]+00:00\<close>, and \<open>NaT\<close> for the missing instant.\<close>

definition civil_from_days :: "int \<Rightarrow> int \<times> int \<times> int" where
  "civil_from_days z =
     (let z1 = z + 719468;
          era = z1 div 146097;
          doe = z1 mod 146097;
          yoe = (doe - doe div 1460 + doe div 36524 - doe div 146096) div 365;
          doy = doe - (365 * yoe + yoe div 4 - yoe div 100);
          mp = (5 * doy + 2) div 153;
          d = doy - (153 * mp + 2) div 5 + 1;
          m = (if mp < 10 then mp + 3 else mp - 9);
          y = yoe + era * 400 + (if m \<le> 2 then 1 else 0)
      in (y, m, d))"

definition dt_year :: "int \<Rightarrow> int" where
  "dt_year t = fst (civil_from_days (t div 86400000000))"

definition dt_month :: "int \<Rightarrow> int" where
  "dt_month t = fst (snd (civil_from_days (t div 86400000000)))"

definition dt_day :: "int \<Rightarrow> int" where
  "dt_day t = snd (snd (civil_from_days (t div 86400000000)))"

definition dt_hour :: "int \<Rightarrow> int" where
  "dt_hour t = (t mod 86400000000) div 3600000000"

definition dt_minute :: "int \<Rightarrow> int" where
  "dt_minute t = (t mod 3600000000) div 60000000"

definition dt_second :: "int \<Rightarrow> int" where
  "dt_second t = (t mod 60000000) div 1000000"

definition dt_microsecond :: "int \<Rightarrow> int" where
  "dt_microsecond t = t mod 1000000"

definition day_name :: "int \<Rightarrow> string" where
  "day_name t =
     [''Thursday'', ''Friday'', ''Saturday'', ''Sunday'', ''Monday'', ''Tuesday'', ''Wednesday'']
       ! nat ((t div 86400000000) mod 7)"

fun zero_pad :: "nat \<Rightarrow> int \<Rightarrow> string" where
  "zero_pad 0 n = []"
| "zero_pad (Suc w) n = zero_pad w (n div 10) @ [''0123456789'' ! nat (n mod 10)]"

definition date_str :: "int \<Rightarrow> string" where
  "date_str t = zero_pad 4 (dt_year t) @ ''-'' @ zero_pad 2 (dt_month t) @ ''-'' @ zero_pad 2 (dt_day t)"

definition isoformat_instant :: "int \<Rightarrow> string" where
  "isoformat_instant t =
     date_str t @ ''T'' @ zero_pad 2 (dt_hour t) @ '':'' @ zero_pad 2 (dt_minute t) @ '':''
       @ zero_pad 2 (dt_second t)
       @ (if dt_microsecond t = 0 then [] else ''.'' @ zero_pad 6 (dt_microsecond t))
       @ ''+00:00''"

fun isoformat :: "timestamp \<Rightarrow> string" where
  "isoformat NaT = ''NaT''"
| "isoformat (Timestamp t) = isoformat_instant t"

section \<open>The incremental window\<close>

definition get_last_from_timestamp :: "parsers \<Rightarrow> delta_path \<Rightarrow> timestamp option" where
  "get_last_from_timestamp P delta_path =
     (case delta_path of
        None \<Rightarrow> None
      | Some dt \<Rightarrow>
          (let df = data dt in
           if ''from'' \<notin> set (columns df) then None
           else if df_empty df then None
           else Some (series_max (map (\<lambda>r. to_datetime_coerce P (cell_of r ''from'')) (rows df)))))"

definition compute_incremental_window ::
  "parsers \<Rightarrow> int \<Rightarrow> delta_path \<Rightarrow> (string \<times> string) option" where
  "compute_incremental_window P now delta_path =
     (let from_dt =
        (case get_last_from_timestamp P delta_path of
           None \<Rightarrow> Timestamp (now - timedelta_days 7)
         | Some last_from \<Rightarrow> add_timedelta last_from (timedelta_minutes 30))
      in if timestamp_ge from_dt (Timestamp now) then None
         else Some (isoformat from_dt, isoformat (Timestamp now)))"

section \<open>Columns\<close>

text \<open>\<open>df[c] = f(row)\<close>: the column is replaced where it stands, or added at the end.\<close>

definition set_cell :: "string \<Rightarrow> (row \<Rightarrow> cell) \<Rightarrow> row \<Rightarrow> row" where
  "set_cell c f r = AList.update c (f r) r"

definition assign :: "string \<Rightarrow> (row \<Rightarrow> cell) \<Rightarrow> dataframe \<Rightarrow> dataframe" where
  "assign c f df =
     \<lparr>columns = (if c \<in> set (columns df) then columns df else columns df @ [c]),
      rows = map (set_cell c f) (rows df)\<rparr>"

definition rename_columns :: "(string \<Rightarrow> string) \<Rightarrow> dataframe \<Rightarrow> dataframe" where
  "rename_columns f df =
     \<lparr>columns = map f (columns df),
      rows = map (map (\<lambda>(k, v). (f k, v))) (rows df)\<rparr>"

text \<open>\<open>str.lower\<close> and \<open>str.strip\<close> on ASCII text.\<close>

definition lower_char :: "char \<Rightarrow> char" where
  "lower_char c =
     (case map_of (zip ''ABCDEFGHIJKLMNOPQRSTUVWXYZ'' ''abcdefghijklmnopqrstuvwxyz'') c of
        None \<Rightarrow> c
      | Some d \<Rightarrow> d)"

definition lower :: "string \<Rightarrow> string" where
  "lower s = map lower_char s"

definition is_space :: "char \<Rightarrow> bool" where
  "is_space c \<longleftrightarrow>
     c \<in> set [CHR '' '', CHR 0x09, CHR 0x0A, CHR 0x0B, CHR 0x0C, CHR 0x0D,
               CHR 0x1C, CHR 0x1D, CHR 0x1E, CHR 0x1F]"

definition strip :: "string \<Rightarrow> string" where
  "strip s = rev (dropWhile is_space (rev (dropWhile is_space s)))"

definition to_numeric_column :: "parsers \<Rightarrow> string \<Rightarrow> dataframe \<Rightarrow> dataframe" where
  "to_numeric_column P c df = assign c (\<lambda>r. num_cell (to_numeric_coerce P (cell_of r c))) df"

definition coerce_datetime_column :: "parsers \<Rightarrow> string \<Rightarrow> dataframe \<Rightarrow> dataframe" where
  "coerce_datetime_column P c df =
     (if c \<in> set (columns df)
      then assign c (\<lambda>r. time_cell (to_datetime_coerce P (cell_of r c))) df
      else df)"

text \<open>\<open>pd.to_datetime\<close> with its default \<open>errors="raise"\<close>.\<close>

definition to_datetime_column :: "parsers \<Rightarrow> string \<Rightarrow> dataframe \<Rightarrow> error + dataframe" where
  "to_datetime_column P c df =
     (if c \<in> set (columns df)
      then (if list_all (\<lambda>r. to_datetime P (cell_of r c) \<noteq> None) (rows df)
            then Inr (assign c (\<lambda>r. time_cell (to_datetime_coerce P (cell_of r c))) df)
            else Inl ValueError)
      else Inr df)"

text \<open>The accessors of \<open>.dt\<close> on a cell of a datetime column.\<close>

fun dt_date_text :: "cell \<Rightarrow> cell" where
  "dt_date_text (Time t) = Str (date_str t)"
| "dt_date_text _ = Str ''NaT''"

fun dt_field :: "(int \<Rightarrow> int) \<Rightarrow> cell \<Rightarrow> cell" where
  "dt_field f (Time t) = Num (of_int (f t))"
| "dt_field f _ = Null"

fun dt_day_name :: "cell \<Rightarrow> cell" where
  "dt_day_name (Time t) = Str (day_name t)"
| "dt_day_name _ = Null"

fun datetimelike :: "cell \<Rightarrow> bool" where
  "datetimelike (Time t) = True"
| "datetimelike Null = True"
| "datetimelike _ = False"

fun num_of_cell :: "cell \<Rightarrow> rat option" where
  "num_of_cell (Num n) = Some n"
| "num_of_cell _ = None"

section \<open>Extraction\<close>

definition get_intensity_range ::
  "(string \<Rightarrow> nat \<Rightarrow> error + json) \<Rightarrow> string \<Rightarrow> string \<Rightarrow> error + dataframe" where
  "get_intensity_range web from_iso to_iso =
     (case fst (call_api (web (''/intensity/'' @ from_iso @ ''/'' @ to_iso)) 3) of
        Inl e \<Rightarrow> Inl e
      | Inr d \<Rightarrow>
          (case dict_get d ''data'' (JArr []) of
             Inl e \<Rightarrow> Inl e
           | Inr results \<Rightarrow> json_normalize results))"


definition normalize_intensity :: "parsers \<Rightarrow> int \<Rightarrow> dataframe \<Rightarrow> error + dataframe" where
  "normalize_intensity P now df =
     (if df_empty df then Inr df
      else
        (case to_datetime_column P ''from'' df of
           Inl e \<Rightarrow> Inl e
         | Inr df1 \<Rightarrow>
             (case to_datetime_column P ''to'' df1 of
                Inl e \<Rightarrow> Inl e
              | Inr df2 \<Rightarrow>
                  (let df3 = fold (to_numeric_column P)
                               (filter (prefix ''intensity.'') (columns df2)) df2
                   in if ''from'' \<in> set (columns df3)
                      then Inr (assign ''ingestion_ts'' (\<lambda>r. Str (isoformat (Timestamp now)))
                                 (assign ''date_part'' (\<lambda>r. dt_date_text (cell_of r ''from'')) df3))
                      else Inl (KeyError [''from''])))))"

text \<open>Two labels that become equal by renaming make \<open>df[c]\<close> a frame, which
  \<open>pd.to_numeric\<close> refuses.\<close>

definition normalize_factors :: "parsers \<Rightarrow> int \<Rightarrow> dataframe \<Rightarrow> error + dataframe" where
  "normalize_factors P now df =
     (if df_empty df then Inr df
      else
        (let df1 = rename_columns (\<lambda>c. strip (lower c)) df;
             num_cols = filter (sublist ''gco2'') (columns df1)
         in if distinct num_cols
            then Inr (assign ''ingestion_ts'' (\<lambda>r. Str (isoformat (Timestamp now)))
                       (fold (to_numeric_column P) num_cols df1))
            else Inl TypeError))"

definition run_incremental_intensity ::
  "parsers \<Rightarrow> (string \<Rightarrow> nat \<Rightarrow> error + json) \<Rightarrow> int \<Rightarrow> int \<Rightarrow> delta_path \<Rightarrow> error + delta_path" where
  "run_incremental_intensity P web now now_ingest intensity_path =
     (case compute_incremental_window P now intensity_path of
        None \<Rightarrow> Inr intensity_path
      | Some (from_iso, to_iso) \<Rightarrow>
          (case get_intensity_range web from_iso to_iso of
             Inl e \<Rightarrow> Inl e
           | Inr df_raw \<Rightarrow>
               (case normalize_intensity P now_ingest df_raw of
                  Inl e \<Rightarrow> Inl e
                | Inr df_norm \<Rightarrow>
                    upsert_delta df_norm intensity_path [''from'', ''to''] [''date_part''])))"


section \<open>Processing\<close>

definition transform_intensity :: "parsers \<Rightarrow> int \<Rightarrow> dataframe \<Rightarrow> error + dataframe" where
  "transform_intensity P now df =
     (if df_empty df then Inr df
      else
        (case drop_duplicates [''from'', ''to'']
                (coerce_datetime_column P ''to'' (coerce_datetime_column P ''from'' df)) of
           Inl e \<Rightarrow> Inl e
         | Inr df1 \<Rightarrow>
             (let df2 = assign ''date'' (\<lambda>r. dt_date_text (cell_of r ''from'')) df1;
                  df3 = assign ''year'' (\<lambda>r. dt_field dt_year (cell_of r ''from'')) df2;
                  df4 = assign ''month'' (\<lambda>r. dt_field dt_month (cell_of r ''from'')) df3;
                  df5 = assign ''day'' (\<lambda>r. dt_field dt_day (cell_of r ''from'')) df4;
                  df6 = assign ''hour'' (\<lambda>r. dt_field dt_hour (cell_of r ''from'')) df5;
                  df7 = assign ''weekday'' (\<lambda>r. dt_day_name (cell_of r ''from'')) df6;
                  df8 = to_numeric_column P ''intensity.actual'' df7;
                  df9 = to_numeric_column P ''intensity.forecast'' df8;
                  df10 = assign ''intensity_value''
                           (\<lambda>r. if cell_of r ''intensity.actual'' = Null
                                then cell_of r ''intensity.forecast''
                                else cell_of r ''intensity.actual'') df9;
                  df11 = assign ''intensity_level''
                           (\<lambda>r. Str (classify_intensity (num_of_cell (cell_of r ''intensity_value'')))) df10
              in Inr (assign ''processed_ts'' (\<lambda>r. Str (isoformat (Timestamp now))) df11))))"

section \<open>Aggregation and ordering\<close>

text \<open>
  Group labels and sort keys are ordered as pandas orders values of one kind: texts by
  code point, numbers and instants by value. Between kinds the order is fixed here by the
  position of the kind. \<open>mean\<close>, \<open>max\<close> and \<open>count\<close> of a group see only its values that are
  not missing: without any, mean and maximum are missing and the count is 0.
\<close>

fun str_le :: "string \<Rightarrow> string \<Rightarrow> bool" where
  "str_le [] t = True"
| "str_le (a # s) [] = False"
| "str_le (a # s) (b # t) =
     ((of_char a :: nat) < of_char b \<or> (a = b \<and> str_le s t))"

fun cell_rank :: "cell \<Rightarrow> nat" where
  "cell_rank (Num n) = 0"
| "cell_rank (Time t) = 1"
| "cell_rank (Str s) = 2"
| "cell_rank (Other v) = 3"
| "cell_rank Null = 4"

fun cell_le :: "cell \<Rightarrow> cell \<Rightarrow> bool" where
  "cell_le (Num a) (Num b) = (a \<le> b)"
| "cell_le (Time a) (Time b) = (a \<le> b)"
| "cell_le (Str a) (Str b) = str_le a b"
| "cell_le a b = (cell_rank a \<le> cell_rank b)"

fun insort_by :: "('a \<Rightarrow> cell) \<Rightarrow> 'a \<Rightarrow> 'a list \<Rightarrow> 'a list" where
  "insort_by key x [] = [x]"
| "insort_by key x (y # ys) =
     (if cell_le (key x) (key y) then x # y # ys else y # insort_by key x ys)"

definition sort_by :: "('a \<Rightarrow> cell) \<Rightarrow> 'a list \<Rightarrow> 'a list" where
  "sort_by key xs = foldr (insort_by key) xs []"

definition group_labels :: "cell list \<Rightarrow> cell list" where
  "group_labels cs = sort_by id (keep_first [] id (filter (\<lambda>c. c \<noteq> Null) cs))"

definition group_values :: "string \<Rightarrow> string \<Rightarrow> cell \<Rightarrow> row list \<Rightarrow> rat list" where
  "group_values by_col val_col label rs =
     List.map_filter (\<lambda>r. num_of_cell (cell_of r val_col))
       (filter (\<lambda>r. cell_of r by_col = label) rs)"

fun agg_mean :: "rat list \<Rightarrow> cell" where
  "agg_mean [] = Null"
| "agg_mean (v # vs) = Num (sum_list (v # vs) / of_nat (length (v # vs)))"

fun agg_max :: "rat list \<Rightarrow> cell" where
  "agg_max [] = Null"
| "agg_max (v # vs) = Num (fold max vs v)"

definition agg_count :: "rat list \<Rightarrow> cell" where
  "agg_count vs = Num (of_nat (length vs))"

fun numeric_or_missing :: "cell \<Rightarrow> bool" where
  "numeric_or_missing (Num n) = True"
| "numeric_or_missing Null = True"
| "numeric_or_missing _ = False"

definition daily_row :: "parsers \<Rightarrow> int \<Rightarrow> row list \<Rightarrow> cell \<Rightarrow> row" where
  "daily_row P now rs label =
     (let vs = group_values ''date'' ''intensity_value'' label rs;
          parsed = time_cell (to_datetime_coerce P label)
      in [(''date'', label),
          (''intensity_mean'', agg_mean vs),
          (''intensity_max'', agg_max vs),
          (''interval_count'', agg_count vs),
          (''year'', dt_field dt_year parsed),
          (''month'', dt_field dt_month parsed),
          (''processed_ts'', Str (isoformat (Timestamp now)))])"

definition build_intensity_daily :: "parsers \<Rightarrow> int \<Rightarrow> dataframe \<Rightarrow> error + dataframe" where
  "build_intensity_daily P now df =
     (if df_empty df then Inr df
      else
        (case (if ''date'' \<in> set (columns df) then Inr df
               else if ''from'' \<in> set (columns df)
                 then (if list_all (\<lambda>r. datetimelike (cell_of r ''from'')) (rows df)
                       then Inr (assign ''date'' (\<lambda>r. dt_date_text (cell_of r ''from'')) df)
                       else Inl AttributeError)
               else Inl (KeyError [''from''])) of
           Inl e \<Rightarrow> Inl e
         | Inr df1 \<Rightarrow>
             if ''intensity_value'' \<in> set (columns df1) then
               (if list_all (\<lambda>r. numeric_or_missing (cell_of r ''intensity_value'')) (rows df1) then
                  (let labels = group_labels (map (\<lambda>r. cell_of r ''date'') (rows df1))
                   in if list_all (\<lambda>l. to_datetime P l \<noteq> None) labels
                      then Inr \<lparr>columns = [''date'', ''intensity_mean'', ''intensity_max'',
                                           ''interval_count'', ''year'', ''month'', ''processed_ts''],
                                rows = map (daily_row P now (rows df1)) labels\<rparr>
                      else Inl ValueError)
                else Inl TypeError)
             else Inl (KeyError [''intensity_value''])))"

text \<open>\<open>sort_values(by=c)\<close>: ascending, missing values last; rows with equal values keep
  their order here.\<close>

definition sort_values :: "string \<Rightarrow> dataframe \<Rightarrow> dataframe" where
  "sort_values c df = df\<lparr>rows := sort_by (\<lambda>r. cell_of r c) (rows df)\<rparr>"

definition transform_factors :: "parsers \<Rightarrow> int \<Rightarrow> dataframe \<Rightarrow> error + dataframe" where
  "transform_factors P now df =
     (if df_empty df then Inr df
      else
        (let df1 = rename_columns (\<lambda>c. strip (lower c)) df
         in case filter (sublist ''gco2perkwh'') (columns df1) of
              [] \<Rightarrow> Inr (assign ''processed_ts'' (\<lambda>r. Str (isoformat (Timestamp now))) df1)
            | factor_col # _ \<Rightarrow>
                if 1 < length (filter (\<lambda>c. c = factor_col) (columns df1)) then Inl TypeError
                else
                  (let df2 = to_numeric_column P factor_col df1;
                       df3 = sort_values factor_col df2;
                       df4 = assign ''factor_level''
                               (\<lambda>r. Str (classify_factor (num_of_cell (cell_of r factor_col)))) df3
                   in Inr (assign ''processed_ts'' (\<lambda>r. Str (isoformat (Timestamp now))) df4))))"

section \<open>The unified metric in the words of the specification\<close>

text \<open>
  The natural key of a bronze record as the transform reads it, and the value the
  specification gives the record: its actual intensity if present, else its forecast.
\<close>

definition interval_key :: "parsers \<Rightarrow> row \<Rightarrow> cell list" where
  "interval_key P r0 =
     [time_cell (to_datetime_coerce P (cell_of r0 ''from'')),
      time_cell (to_datetime_coerce P (cell_of r0 ''to''))]"

definition spec_intensity_value :: "parsers \<Rightarrow> row \<Rightarrow> cell" where
  "spec_intensity_value P r0 =
     (case to_numeric_coerce P (cell_of r0 ''intensity.actual'') of
        Some a \<Rightarrow> Num a
      | None \<Rightarrow> num_cell (to_numeric_coerce P (cell_of r0 ''intensity.forecast'')))"

section \<open>Worked inputs\<close>

text \<open>Two frames of half-hour intervals that overlap in one interval (00:00 to 01:30 on
  2024-01-01), two behaviours of the network, a frame whose \<open>from\<close> cells cannot be read,
  and readers that know one text.\<close>

definition example_old :: dataframe where
  "example_old =
     \<lparr>columns = [''from'', ''to'', ''intensity.actual'', ''date_part''],
      rows = [[(''from'', Time 1704067200000000), (''to'', Time 1704069000000000),
               (''intensity.actual'', Num 100), (''date_part'', Str ''2024-01-01'')],
              [(''from'', Time 1704069000000000), (''to'', Time 1704070800000000),
               (''intensity.actual'', Num 110), (''date_part'', Str ''2024-01-01'')]]\<rparr>"



definition example_duplicated :: dataframe where
  "example_duplicated =
     \<lparr>columns = [''from'', ''to'', ''intensity.actual'', ''date_part''],
      rows = [[(''from'', Time 1704067200000000), (''to'', Time 1704069000000000),
               (''intensity.actual'', Num 100), (''date_part'', Str ''2024-01-01'')],
              [(''from'', Time 1704067200000000), (''to'', Time 1704069000000000),
               (''intensity.actual'', Num 101), (''date_part'', Str ''2024-01-01'')]]\<rparr>"

definition example_without_to :: dataframe where
  "example_without_to =
     \<lparr>columns = [''from'', ''intensity.actual'', ''date_part''],
      rows = [[(''from'', Time 1704067200000000), (''intensity.actual'', Num 100),
               (''date_part'', Str ''2024-01-01'')]]\<rparr>"




definition example_net_down :: "nat \<Rightarrow> error + json" where
  "example_net_down i = Inl (RequestException ''timeout'')"

definition example_net_third :: "nat \<Rightarrow> error + json" where
  "example_net_third i =
     (if i < 3 then Inl (RequestException ''timeout'') else Inr (JObj [(''data'', JArr [])]))"

definition example_parsers :: parsers where
  "example_parsers =
     \<lparr>parse_datetime =
        (\<lambda>c. case c of
                Str s \<Rightarrow> map_of [(''2024-01-01T00:00Z'', Timestamp 1704067200000000),
                                   (''2024-01-01'', Timestamp 1704067200000000),
                                   (''NaT'', NaT)] s
              | _ \<Rightarrow> None),
      parse_number = (\<lambda>c. None)\<rparr>"

definition example_unparsed :: dataframe where
  "example_unparsed =
     \<lparr>columns = [''from'', ''to''],
      rows = [[(''from'', Str ''n/a''), (''to'', Str ''n/a'')],
              [(''from'', Null), (''to'', Null)]]\<rparr>"

definition example_bronze :: dataframe where
  "example_bronze =
     \<lparr>columns = [''from'', ''to'', ''intensity.forecast'', ''intensity.actual'', ''intensity.index''],
      rows = [[(''from'', Time 1704067200000000), (''to'', Time 1704069000000000),
               (''intensity.forecast'', Num 90), (''intensity.actual'', Num 80),
               (''intensity.index'', Str ''low'')],
              [(''from'', Time 1704069000000000), (''to'', Time 1704070800000000),
               (''intensity.forecast'', Num 42), (''intensity.actual'', Null),
               (''intensity.index'', Str ''low'')],
              [(''from'', Time 1704070800000000), (''to'', Time 1704072600000000),
               (''intensity.forecast'', Null), (''intensity.actual'', Null),
               (''intensity.index'', Null)]]\<rparr>"

definition example_detail :: dataframe where
  "example_detail =
     \<lparr>columns = [''from'', ''date'', ''intensity_value''],
      rows = [[(''from'', Time 1704067200000000), (''date'', Str ''2024-01-01''), (''intensity_value'', Num 80)],
              [(''from'', Time 1704069000000000), (''date'', Str ''2024-01-01''), (''intensity_value'', Num 120)],
              [(''from'', Time 1704070800000000), (''date'', Str ''2024-01-01''), (''intensity_value'', Null)]]\<rparr>"

definition example_bronze_day :: dataframe where
  "example_bronze_day =
     \<lparr>columns = [''from'', ''to'', ''intensity.forecast'', ''intensity.actual''],
      rows = [[(''from'', Time 1704067200000000), (''to'', Time 1704069000000000),
               (''intensity.forecast'', Num 85), (''intensity.actual'', Num 80)],
              [(''from'', Time 1704069000000000), (''to'', Time 1704070800000000),
               (''intensity.forecast'', Num 120), (''intensity.actual'', Null)],
              [(''from'', Time 1704070800000000), (''to'', Time 1704072600000000),
               (''intensity.forecast'', Null), (''intensity.actual'', Null)]]\<rparr>"


definition example_web_no_data :: "string \<Rightarrow> nat \<Rightarrow> error + json" where
  "example_web_no_data path attempt = Inr (JObj [(''error'', JStr ''no data'')])"

definition example_web_list :: "string \<Rightarrow> nat \<Rightarrow> error + json" where
  "example_web_list path attempt = Inr (JArr [])"

definition example_daily :: dataframe where
  "example_daily =
     \<lparr>columns = [''date'', ''intensity_mean'', ''intensity_max'', ''interval_count'',
                 ''year'', ''month'', ''processed_ts''],
      rows = [[(''date'', Str ''2024-01-01''), (''intensity_mean'', Num 100),
               (''intensity_max'', Num 120), (''interval_count'', Num 2),
               (''year'', Num 2024), (''month'', Num 1),
               (''processed_ts'', Str ''2024-01-01T02:00:00+00:00'')]]\<rparr>"

section \<open>Facts about the building blocks\<close>

lemma keep_first_keys:
  "set (map key (keep_first seen key xs)) = set (map key xs) - set seen"
  by (induction xs arbitrary: seen) auto

lemma keep_first_distinct:
  "distinct (map key (keep_first seen key xs))"
proof (induction xs arbitrary: seen)
  case Nil
  then show ?case by simp
next
  case (Cons r rs)
  have "key r \<notin> set (map key (keep_first (key r # seen) key rs))"
    unfolding keep_first_keys by simp
  with Cons show ?case by simp
qed




lemma keep_first_id:
  "distinct (map key xs) \<Longrightarrow> set (map key xs) \<inter> set seen = {} \<Longrightarrow> keep_first seen key xs = xs"
  by (induction xs arbitrary: seen) auto


lemma keep_first_map:
  "keep_first seen key (map g xs) = map g (keep_first seen (key \<circ> g) xs)"
  by (induction xs arbitrary: seen) simp_all


lemma pd_concat_simps [simp]:
  "columns (pd_concat a b) = columns a @ filter (\<lambda>c. c \<notin> set (columns a)) (columns b)"
  "rows (pd_concat a b) = rows a @ rows b"
  by (simp_all add: pd_concat_def)

lemma drop_duplicates_ok:
  assumes "subs \<noteq> []" and "set subs \<subseteq> set (columns df)"
  shows "drop_duplicates subs df = Inr (df\<lparr>rows := keep_first [] (row_key subs) (rows df)\<rparr>)"
proof (cases "rows df = []")
  case True
  then show ?thesis by (simp add: drop_duplicates_def df_empty_def)
next
  case False
  from assms have "columns df \<noteq> []" by auto
  with False assms show ?thesis by (simp add: drop_duplicates_def df_empty_def)
qed

lemma call_api_from_success:
  "attempt \<le> k \<Longrightarrow> k \<le> retries \<Longrightarrow> net k = Inr body \<Longrightarrow>
   (\<And>i. attempt \<le> i \<Longrightarrow> i < k \<Longrightarrow> \<exists>m. net i = Inl (RequestException m)) \<Longrightarrow>
   call_api_from net retries attempt lg =
     (Inr body, \<lparr>requests_sent = requests_sent lg + (Suc k - attempt),
                 seconds_slept = seconds_slept lg + 2 * (k - attempt)\<rparr>)"
proof (induction "k - attempt" arbitrary: attempt lg)
  case 0
  then have "attempt = k" by simp
  with 0 show ?case
    by (subst call_api_from.simps[of net retries attempt lg]) (simp add: Let_def)
next
  case (Suc n)
  then have lt: "attempt < k" by simp
  from Suc.prems(4)[of attempt] lt obtain m where m: "net attempt = Inl (RequestException m)"
    by auto
  have step: "call_api_from net retries attempt lg =
      call_api_from net retries (Suc attempt)
        (lg\<lparr>requests_sent := requests_sent lg + 1, seconds_slept := seconds_slept lg + 2\<rparr>)"
    using lt Suc.prems(2) m by (subst call_api_from.simps[of net retries attempt lg]) (simp add: Let_def)
  have "call_api_from net retries (Suc attempt)
        (lg\<lparr>requests_sent := requests_sent lg + 1, seconds_slept := seconds_slept lg + 2\<rparr>) =
     (Inr body, \<lparr>requests_sent = requests_sent (lg\<lparr>requests_sent := requests_sent lg + 1, seconds_slept := seconds_slept lg + 2\<rparr>) + (Suc k - Suc attempt),
                 seconds_slept = seconds_slept (lg\<lparr>requests_sent := requests_sent lg + 1, seconds_slept := seconds_slept lg + 2\<rparr>) + 2 * (k - Suc attempt)\<rparr>)"
  proof (rule Suc.hyps(1))
    show "n = k - Suc attempt" using Suc.hyps(2) by simp
    show "Suc attempt \<le> k" using lt by simp
    show "k \<le> retries" by (rule Suc.prems(2))
    show "net k = Inr body" by (rule Suc.prems(3))
    show "\<exists>m. net i = Inl (RequestException m)" if "Suc attempt \<le> i" "i < k" for i
      using that Suc.prems(4)[of i] by simp
  qed
  with step lt show ?case by (simp add: Suc_diff_le)
qed

lemma call_api_from_exhausted:
  "attempt \<le> retries \<Longrightarrow> 0 < attempt \<Longrightarrow>
   (\<And>i. attempt \<le> i \<Longrightarrow> i \<le> retries \<Longrightarrow> net i = Inl (RequestException (msg i))) \<Longrightarrow>
   call_api_from net retries attempt lg =
     (Inl (RequestException (msg retries)),
      \<lparr>requests_sent = requests_sent lg + (Suc retries - attempt),
       seconds_slept = seconds_slept lg + 2 * (retries - attempt)\<rparr>)"
proof (induction "retries - attempt" arbitrary: attempt lg)
  case 0
  then have "attempt = retries" by simp
  with 0 show ?case
    by (subst call_api_from.simps[of net retries attempt lg]) (simp add: Let_def)
next
  case (Suc n)
  then have lt: "attempt < retries" by simp
  have m: "net attempt = Inl (RequestException (msg attempt))"
    using Suc.prems(3)[of attempt] lt by simp
  have step: "call_api_from net retries attempt lg =
      call_api_from net retries (Suc attempt)
        (lg\<lparr>requests_sent := requests_sent lg + 1, seconds_slept := seconds_slept lg + 2\<rparr>)"
    using lt m by (subst call_api_from.simps[of net retries attempt lg]) (simp add: Let_def)
  have "call_api_from net retries (Suc attempt)
        (lg\<lparr>requests_sent := requests_sent lg + 1, seconds_slept := seconds_slept lg + 2\<rparr>) =
     (Inl (RequestException (msg retries)),
      \<lparr>requests_sent = requests_sent (lg\<lparr>requests_sent := requests_sent lg + 1, seconds_slept := seconds_slept lg + 2\<rparr>) + (Suc retries - Suc attempt),
       seconds_slept = seconds_slept (lg\<lparr>requests_sent := requests_sent lg + 1, seconds_slept := seconds_slept lg + 2\<rparr>) + 2 * (retries - Suc attempt)\<rparr>)"
  proof (rule Suc.hyps(1))
    show "n = retries - Suc attempt" using Suc.hyps(2) by simp
    show "Suc attempt \<le> retries" using lt by simp
    show "0 < Suc attempt" by simp
    show "net i = Inl (RequestException (msg i))" if "Suc attempt \<le> i" "i \<le> retries" for i
      using that Suc.prems(3)[of i] by simp
  qed
  with step lt show ?case by (simp add: Suc_diff_le)
qed

lemma call_api_from_bound:
  "requests_sent (snd (call_api_from net retries attempt lg)) \<le> requests_sent lg + (Suc retries - attempt)"
proof (induction net retries attempt lg rule: call_api_from.induct)
  case (1 net retries attempt lg)
  show ?case
  proof (cases "retries < attempt")
    case True
    then have "call_api_from net retries attempt lg = (Inr JNull, lg)"
      by (subst call_api_from.simps[of net retries attempt lg]) simp
    then show ?thesis by simp
  next
    case False
    show ?thesis
    proof (cases "net attempt")
      case (Inr body)
      with False have "call_api_from net retries attempt lg =
          (Inr body, lg\<lparr>requests_sent := requests_sent lg + 1\<rparr>)"
        by (subst call_api_from.simps[of net retries attempt lg]) (simp add: Let_def)
      with False show ?thesis by simp
    next
      case (Inl err)
      show ?thesis
      proof (cases "is_request_exception err \<and> attempt \<noteq> retries")
        case True
        with False Inl have step: "call_api_from net retries attempt lg =
            call_api_from net retries (Suc attempt)
              (lg\<lparr>requests_sent := requests_sent lg + 1,
                  seconds_slept := seconds_slept (lg\<lparr>requests_sent := requests_sent lg + 1\<rparr>) + 2\<rparr>)"
          by (subst call_api_from.simps[of net retries attempt lg]) (simp add: Let_def)
        have "requests_sent (snd (call_api_from net retries (Suc attempt)
              (lg\<lparr>requests_sent := requests_sent lg + 1,
                  seconds_slept := seconds_slept (lg\<lparr>requests_sent := requests_sent lg + 1\<rparr>) + 2\<rparr>)))
            \<le> requests_sent (lg\<lparr>requests_sent := requests_sent lg + 1,
                  seconds_slept := seconds_slept (lg\<lparr>requests_sent := requests_sent lg + 1\<rparr>) + 2\<rparr>)
                + (Suc retries - Suc attempt)"
          using True by (intro 1[OF False refl Inl]) simp_all
        with step False show ?thesis by simp
      next
        case nr: False
        with False Inl have "call_api_from net retries attempt lg =
            (Inl err, lg\<lparr>requests_sent := requests_sent lg + 1\<rparr>)"
          by (subst call_api_from.simps[of net retries attempt lg]) (auto simp add: Let_def)
        with False show ?thesis by simp
      qed
    qed
  qed
qed

lemma max_timestamp_cases: "max_timestamp x a = x \<or> max_timestamp x a = a"
  by (cases x; cases a) (auto simp: max_def)

lemma fold_max_timestamp_mem: "fold max_timestamp ts a \<in> insert a (set ts)"
proof (induction ts arbitrary: a)
  case Nil
  then show ?case by simp
next
  case (Cons x xs)
  from Cons[of "max_timestamp x a"] max_timestamp_cases[of x a] show ?case by auto
qed

lemma fold_max_timestamp_init:
  "\<exists>U. fold max_timestamp ts (Timestamp t) = Timestamp U \<and> t \<le> U"
proof (induction ts arbitrary: t)
  case Nil
  then show ?case by simp
next
  case (Cons x xs)
  show ?case
  proof (cases x)
    case NaT
    with Cons[of t] show ?thesis by simp
  next
    case (Timestamp u)
    from Cons[of "max u t"] obtain U where "fold max_timestamp xs (Timestamp (max u t)) = Timestamp U"
      and "max u t \<le> U" by blast
    with Timestamp show ?thesis by auto
  qed
qed

lemma fold_max_timestamp_upper:
  "Timestamp t \<in> set ts \<Longrightarrow> \<exists>U. fold max_timestamp ts a = Timestamp U \<and> t \<le> U"
proof (induction ts arbitrary: a)
  case Nil
  then show ?case by simp
next
  case (Cons x xs)
  show ?case
  proof (cases "x = Timestamp t")
    case True
    obtain v where v: "max_timestamp (Timestamp t) a = Timestamp v" and tv: "t \<le> v"
      by (cases a) auto
    from fold_max_timestamp_init[of xs v] obtain U
      where "fold max_timestamp xs (Timestamp v) = Timestamp U" and "v \<le> U" by blast
    with True v tv show ?thesis by auto
  next
    case False
    with Cons.prems have "Timestamp t \<in> set xs" by simp
    from Cons.IH[OF this, of "max_timestamp x a"] show ?thesis by simp
  qed
qed

lemma series_max_all_NaT:
  "list_all (\<lambda>t. t = NaT) ts \<Longrightarrow> series_max ts = NaT"
  unfolding series_max_def by (induction ts) simp_all

lemma series_max_is_max:
  assumes "series_max ts = Timestamp T"
  shows "Timestamp T \<in> set ts" and "Timestamp t \<in> set ts \<Longrightarrow> t \<le> T"
proof -
  from fold_max_timestamp_mem[of ts NaT] assms show "Timestamp T \<in> set ts"
    by (simp add: series_max_def)
  assume "Timestamp t \<in> set ts"
  from fold_max_timestamp_upper[OF this, of NaT] assms show "t \<le> T"
    by (simp add: series_max_def)
qed

lemma pd_concat_empty_frame [simp]: "pd_concat df empty_frame = df"
  by (simp add: pd_concat_def empty_frame_def)

lemma df_empty_empty_frame [simp]: "df_empty empty_frame"
  by (simp add: df_empty_def empty_frame_def)

lemma call_api_first_success:
  "net 1 = Inr body \<Longrightarrow> fst (call_api net 3) = Inr body"
  unfolding call_api_def
  by (subst call_api_from.simps) (simp add: Let_def)

lemma cell_of_set_cell [simp]:
  "cell_of (set_cell c f r) c' = (if c = c' then f r else cell_of r c')"
  by (simp add: cell_of_def set_cell_def update_conv')

lemma rows_assign [simp]: "rows (assign c f df) = map (set_cell c f) (rows df)"
  by (simp add: assign_def)

lemma columns_assign [simp]:
  "columns (assign c f df) = (if c \<in> set (columns df) then columns df else columns df @ [c])"
  by (simp add: assign_def)

lemma rows_to_numeric_column [simp]:
  "rows (to_numeric_column P c df) =
     map (set_cell c (\<lambda>r. num_cell (to_numeric_coerce P (cell_of r c)))) (rows df)"
  by (simp add: to_numeric_column_def)

lemma keep_first_subset: "set (keep_first seen key xs) \<subseteq> set xs"
  by (induction xs arbitrary: seen) auto

lemma keep_first_nonempty: "xs \<noteq> [] \<Longrightarrow> keep_first [] key xs \<noteq> []"
  by (cases xs) auto

lemma num_cell_Null [simp]: "num_cell v = Null \<longleftrightarrow> v = None"
  by (cases v) auto

lemma num_of_num_cell [simp]: "num_of_cell (num_cell v) = v"
  by (cases v) auto

lemma get_intensity_range_degrades:
  assumes "fst (call_api (web (''/intensity/'' @ from_iso @ ''/'' @ to_iso)) 3) = Inr (JObj kvs)"
    and "map_of kvs ''data'' = None \<or> map_of kvs ''data'' = Some (JArr [])"
  shows "get_intensity_range web from_iso to_iso = Inr empty_frame"
  using assms by (auto simp: get_intensity_range_def dict_get_def)

lemma upsert_delta_empty_existing:
  assumes "key_cols \<noteq> []" and "set key_cols \<subseteq> set (columns old)"
    and "distinct (map (row_key key_cols) (rows old))"
  shows "upsert_delta empty_frame (Some \<lparr>data = old, partition_by = parts\<rparr>) key_cols parts =
           Inr (Some \<lparr>data = old, partition_by = parts\<rparr>)"
proof -
  have "keep_first [] (row_key key_cols) (rows old) = rows old"
    using assms(3) by (intro keep_first_id) simp_all
  then have "drop_duplicates key_cols old = Inr old"
    using drop_duplicates_ok[OF assms(1,2)] by simp
  then show ?thesis using assms(2) by (simp add: upsert_delta_def write_deltalake_def)
qed

lemma set_insort_by [simp]: "set (insort_by key x ys) = insert x (set ys)"
  by (induction ys) auto

lemma distinct_insort_by [simp]: "distinct (insort_by key x ys) \<longleftrightarrow> x \<notin> set ys \<and> distinct ys"
  by (induction ys) auto

lemma set_foldr_insort_by: "set (foldr (insort_by key) xs []) = set xs"
  by (induction xs) simp_all

lemma set_sort_by [simp]: "set (sort_by key xs) = set xs"
  by (simp add: sort_by_def set_foldr_insort_by)

lemma distinct_sort_by [simp]: "distinct (sort_by key xs) \<longleftrightarrow> distinct xs"
  unfolding sort_by_def by (induction xs) (simp_all add: set_foldr_insort_by)

lemma set_group_labels: "set (group_labels cs) = set cs - {Null}"
proof -
  have "set (keep_first [] id (filter (\<lambda>c. c \<noteq> Null) cs)) = set (filter (\<lambda>c. c \<noteq> Null) cs)"
    using keep_first_keys[of id "[]" "filter (\<lambda>c. c \<noteq> Null) cs"] by simp
  then show ?thesis by (auto simp: group_labels_def)
qed

lemma distinct_group_labels: "distinct (group_labels cs)"
  using keep_first_distinct[of id "[]" "filter (\<lambda>c. c \<noteq> Null) cs"]
  by (simp add: group_labels_def)

lemma length_map_filter: "length (List.map_filter f xs) = length (filter (\<lambda>x. f x \<noteq> None) xs)"
  by (simp add: List.map_filter_def)

lemma numeric_or_missing_num: "numeric_or_missing c \<Longrightarrow> num_of_cell c = None \<longleftrightarrow> c = Null"
  by (cases c) auto

lemma length_group_values:
  assumes "list_all (\<lambda>r. numeric_or_missing (cell_of r val_col)) rs"
  shows "length (group_values by_col val_col label rs) =
         length (filter (\<lambda>d. cell_of d by_col = label \<and> cell_of d val_col \<noteq> Null) rs)"
proof -
  have "filter (\<lambda>r. num_of_cell (cell_of r val_col) \<noteq> None) (filter (\<lambda>r. cell_of r by_col = label) rs) =
        filter (\<lambda>d. cell_of d by_col = label \<and> cell_of d val_col \<noteq> Null) rs"
    using assms by (induction rs) (auto simp: numeric_or_missing_num)
  then show ?thesis by (simp add: group_values_def length_map_filter)
qed

lemma agg_max_Max: "vs \<noteq> [] \<Longrightarrow> agg_max vs = Num (Max (set vs))"
proof (cases vs)
  case Nil
  assume "vs \<noteq> []"
  with Nil show ?thesis by simp
next
  case (Cons v ws)
  have "fold max ws v = Max (set (v # ws))" by (rule Max.set_eq_fold[symmetric])
  with Cons show ?thesis by simp
qed

lemma agg_mean_mean: "vs \<noteq> [] \<Longrightarrow> agg_mean vs = Num (sum_list vs / of_nat (length vs))"
  by (cases vs) simp_all

lemma daily_row_cells:
  "cell_of (daily_row P now rs label) ''date'' = label"
  "cell_of (daily_row P now rs label) ''intensity_mean'' =
     agg_mean (group_values ''date'' ''intensity_value'' label rs)"
  "cell_of (daily_row P now rs label) ''intensity_max'' =
     agg_max (group_values ''date'' ''intensity_value'' label rs)"
  "cell_of (daily_row P now rs label) ''interval_count'' =
     agg_count (group_values ''date'' ''intensity_value'' label rs)"
  by (simp_all add: daily_row_def cell_of_def Let_def)

section \<open>Overlap and replay of the upsert\<close>





section \<open>Classification boundaries\<close>

text \<open>
  C5. The intensity level is low up to 100, moderate up to 200, high up to 300 and very
  high above, unknown for a missing value (so 100 is low, 100.01 and 200 moderate, 200.01
  and 300 high, 300.01 very high); the factor level is low up to 150, medium up to 400,
  high above and unknown for a missing value.
\<close>

theorem classify_boundaries:
  "classify_intensity (Some 100) = ''low''
   \<and> classify_intensity (Some (10001 / 100)) = ''moderate''
   \<and> classify_intensity (Some 200) = ''moderate''
   \<and> classify_intensity (Some (20001 / 100)) = ''high''
   \<and> classify_intensity (Some 300) = ''high''
   \<and> classify_intensity (Some (30001 / 100)) = ''very high''
   \<and> classify_intensity None = ''unknown''
   \<and> (\<forall>v. v \<le> 100 \<longrightarrow> classify_intensity (Some v) = ''low'')
   \<and> (\<forall>v. 100 < v \<and> v \<le> 200 \<longrightarrow> classify_intensity (Some v) = ''moderate'')
   \<and> (\<forall>v. 200 < v \<and> v \<le> 300 \<longrightarrow> classify_intensity (Some v) = ''high'')
   \<and> (\<forall>v. 300 < v \<longrightarrow> classify_intensity (Some v) = ''very high'')
   \<and> (\<forall>v. v \<le> 150 \<longrightarrow> classify_factor (Some v) = ''low'')
   \<and> (\<forall>v. 150 < v \<and> v \<le> 400 \<longrightarrow> classify_factor (Some v) = ''medium'')
   \<and> (\<forall>v. 400 < v \<longrightarrow> classify_factor (Some v) = ''high'')
   \<and> classify_factor None = ''unknown''"
  by simp

theorem classify_boundaries_witness:
  "classify_intensity (Some 50) = ''low''
   \<and> classify_intensity (Some 150) = ''moderate''
   \<and> classify_intensity (Some 250) = ''high''
   \<and> classify_intensity (Some 350) = ''very high''
   \<and> classify_factor (Some 150) = ''low''
   \<and> classify_factor (Some (15001 / 100)) = ''medium''
   \<and> classify_factor (Some 400) = ''medium''
   \<and> classify_factor (Some (40001 / 100)) = ''high''"
  using classify_boundaries by simp

section \<open>Retries of the web call\<close>

text \<open>
  C9. A call sends at most \<open>retries\<close> requests. When every attempt fails with a request
  error, all \<open>retries\<close> attempts are made, two seconds are slept between consecutive
  attempts, and the error of the last attempt is raised. When attempt k is the first to
  succeed, its parsed body is returned after k requests and k - 1 sleeps.
\<close>

theorem call_api_retries:
  "requests_sent (snd (call_api net retries)) \<le> retries
   \<and> (0 < retries \<and> (\<forall>i. 1 \<le> i \<and> i \<le> retries \<longrightarrow> net i = Inl (RequestException (msg i)))
        \<longrightarrow> call_api net retries =
              (Inl (RequestException (msg retries)),
               \<lparr>requests_sent = retries, seconds_slept = 2 * (retries - 1)\<rparr>))
   \<and> (1 \<le> k \<and> k \<le> retries \<and> net k = Inr body
        \<and> (\<forall>i. 1 \<le> i \<and> i < k \<longrightarrow> net i = Inl (RequestException (msg i)))
        \<longrightarrow> call_api net retries =
              (Inr body, \<lparr>requests_sent = k, seconds_slept = 2 * (k - 1)\<rparr>))"
proof (intro conjI impI)
  show "requests_sent (snd (call_api net retries)) \<le> retries"
    using call_api_from_bound[of net retries 1 "\<lparr>requests_sent = 0, seconds_slept = 0\<rparr>"]
    by (simp add: call_api_def)
next
  assume a: "0 < retries \<and> (\<forall>i. 1 \<le> i \<and> i \<le> retries \<longrightarrow> net i = Inl (RequestException (msg i)))"
  then have "call_api_from net retries 1 \<lparr>requests_sent = 0, seconds_slept = 0\<rparr> =
     (Inl (RequestException (msg retries)),
      \<lparr>requests_sent = requests_sent \<lparr>requests_sent = 0, seconds_slept = 0\<rparr> + (Suc retries - 1),
       seconds_slept = seconds_slept \<lparr>requests_sent = 0, seconds_slept = 0\<rparr> + 2 * (retries - 1)\<rparr>)"
    by (intro call_api_from_exhausted) auto
  then show "call_api net retries =
     (Inl (RequestException (msg retries)), \<lparr>requests_sent = retries, seconds_slept = 2 * (retries - 1)\<rparr>)"
    by (simp add: call_api_def)
next
  assume a: "1 \<le> k \<and> k \<le> retries \<and> net k = Inr body
        \<and> (\<forall>i. 1 \<le> i \<and> i < k \<longrightarrow> net i = Inl (RequestException (msg i)))"
  then have "call_api_from net retries 1 \<lparr>requests_sent = 0, seconds_slept = 0\<rparr> =
     (Inr body,
      \<lparr>requests_sent = requests_sent \<lparr>requests_sent = 0, seconds_slept = 0\<rparr> + (Suc k - 1),
       seconds_slept = seconds_slept \<lparr>requests_sent = 0, seconds_slept = 0\<rparr> + 2 * (k - 1)\<rparr>)"
    by (intro call_api_from_success) auto
  then show "call_api net retries = (Inr body, \<lparr>requests_sent = k, seconds_slept = 2 * (k - 1)\<rparr>)"
    by (simp add: call_api_def)
qed

theorem call_api_retries_witness:
  "call_api example_net_down 3 =
     (Inl (RequestException ''timeout''), \<lparr>requests_sent = 3, seconds_slept = 4\<rparr>)
   \<and> call_api example_net_third 3 =
     (Inr (JObj [(''data'', JArr [])]), \<lparr>requests_sent = 3, seconds_slept = 4\<rparr>)"
  using call_api_retries[of example_net_down 3 "\<lambda>_. ''timeout''" 3 JNull]
    call_api_retries[of example_net_third 3 "\<lambda>_. ''timeout''" 3 "JObj [(''data'', JArr [])]"]
  by (simp add: example_net_down_def example_net_third_def)

section \<open>The window resolver\<close>

text \<open>
  C3. Without a stored maximum \<open>from\<close> (no table, an empty table, or a table without a
  \<open>from\<close> column), and only then, the resolver finds no last instant, and the window is
  the last seven days up to now. A table with rows and a \<open>from\<close> column of which at least
  one cell reads as an instant has the stored maximum T, the greatest instant read from
  that column: the window starts at T + 30 minutes and ends at now, and when that start
  is not before now there is no window, and no error.
\<close>

theorem compute_incremental_window_cases:
  "(delta_path = None \<or> (\<exists>dt. delta_path = Some dt \<and> (''from'' \<notin> set (columns (data dt)) \<or> df_empty (data dt)))
      \<longrightarrow> get_last_from_timestamp P delta_path = None
          \<and> compute_incremental_window P now delta_path =
              Some (isoformat (Timestamp (now - timedelta_days 7)), isoformat (Timestamp now)))
   \<and> (get_last_from_timestamp P delta_path = None
      \<longrightarrow> (delta_path = None \<or> (\<exists>dt. delta_path = Some dt \<and> (''from'' \<notin> set (columns (data dt)) \<or> df_empty (data dt))))
          \<and> compute_incremental_window P now delta_path =
              Some (isoformat (Timestamp (now - timedelta_days 7)), isoformat (Timestamp now)))
   \<and> (delta_path = Some table \<and> ''from'' \<in> set (columns (data table)) \<and> \<not> df_empty (data table)
        \<and> Timestamp t \<in> set (map (\<lambda>r. to_datetime_coerce P (cell_of r ''from'')) (rows (data table)))
      \<longrightarrow> (\<exists>T. get_last_from_timestamp P delta_path = Some (Timestamp T) \<and> t \<le> T
              \<and> Timestamp T \<in> set (map (\<lambda>r. to_datetime_coerce P (cell_of r ''from'')) (rows (data table)))
              \<and> (\<forall>u. Timestamp u \<in> set (map (\<lambda>r. to_datetime_coerce P (cell_of r ''from'')) (rows (data table)))
                    \<longrightarrow> u \<le> T)
              \<and> compute_incremental_window P now delta_path =
                  (if now \<le> T + timedelta_minutes 30 then None
                   else Some (isoformat (Timestamp (T + timedelta_minutes 30)), isoformat (Timestamp now)))))
   \<and> (get_last_from_timestamp P delta_path = Some (Timestamp T)
      \<longrightarrow> (\<exists>dt. delta_path = Some dt
              \<and> Timestamp T \<in> set (map (\<lambda>r. to_datetime_coerce P (cell_of r ''from'')) (rows (data dt)))
              \<and> (\<forall>t. Timestamp t \<in> set (map (\<lambda>r. to_datetime_coerce P (cell_of r ''from'')) (rows (data dt)))
                    \<longrightarrow> t \<le> T))
          \<and> compute_incremental_window P now delta_path =
              (if now \<le> T + timedelta_minutes 30 then None
               else Some (isoformat (Timestamp (T + timedelta_minutes 30)), isoformat (Timestamp now))))"
proof -
  have none_window: "compute_incremental_window P now delta_path =
        Some (isoformat (Timestamp (now - timedelta_days 7)), isoformat (Timestamp now))"
    if "get_last_from_timestamp P delta_path = None"
    using that by (simp add: compute_incremental_window_def timedelta_days_def)
  have some_window: "compute_incremental_window P now delta_path =
        (if now \<le> U + timedelta_minutes 30 then None
         else Some (isoformat (Timestamp (U + timedelta_minutes 30)), isoformat (Timestamp now)))"
    if "get_last_from_timestamp P delta_path = Some (Timestamp U)" for U
    using that by (simp add: compute_incremental_window_def)
  have A: "get_last_from_timestamp P delta_path = None"
    if "delta_path = None \<or> (\<exists>dt. delta_path = Some dt \<and> (''from'' \<notin> set (columns (data dt)) \<or> df_empty (data dt)))"
    using that by (auto simp: get_last_from_timestamp_def Let_def)
  have B: "delta_path = None \<or> (\<exists>dt. delta_path = Some dt \<and> (''from'' \<notin> set (columns (data dt)) \<or> df_empty (data dt)))"
    if "get_last_from_timestamp P delta_path = None"
    using that by (auto simp: get_last_from_timestamp_def Let_def split: option.splits if_splits)
  have C: "\<exists>T. get_last_from_timestamp P delta_path = Some (Timestamp T) \<and> t \<le> T
              \<and> Timestamp T \<in> set (map (\<lambda>r. to_datetime_coerce P (cell_of r ''from'')) (rows (data table)))
              \<and> (\<forall>u. Timestamp u \<in> set (map (\<lambda>r. to_datetime_coerce P (cell_of r ''from'')) (rows (data table)))
                    \<longrightarrow> u \<le> T)
              \<and> compute_incremental_window P now delta_path =
                  (if now \<le> T + timedelta_minutes 30 then None
                   else Some (isoformat (Timestamp (T + timedelta_minutes 30)), isoformat (Timestamp now)))"
    if h: "delta_path = Some table \<and> ''from'' \<in> set (columns (data table)) \<and> \<not> df_empty (data table)
        \<and> Timestamp t \<in> set (map (\<lambda>r. to_datetime_coerce P (cell_of r ''from'')) (rows (data table)))"
  proof -
    let ?xs = "map (\<lambda>r. to_datetime_coerce P (cell_of r ''from'')) (rows (data table))"
    from h have g: "get_last_from_timestamp P delta_path = Some (series_max ?xs)"
      by (simp add: get_last_from_timestamp_def Let_def)
    from h have "Timestamp t \<in> set ?xs" by simp
    from fold_max_timestamp_upper[OF this, of NaT] obtain U
      where U: "series_max ?xs = Timestamp U" and tU: "t \<le> U"
      by (auto simp: series_max_def)
    from g U have gU: "get_last_from_timestamp P delta_path = Some (Timestamp U)" by simp
    from series_max_is_max[OF U] some_window[OF gU] gU tU show ?thesis by blast
  qed
  have D: "\<exists>dt. delta_path = Some dt
              \<and> Timestamp T \<in> set (map (\<lambda>r. to_datetime_coerce P (cell_of r ''from'')) (rows (data dt)))
              \<and> (\<forall>t. Timestamp t \<in> set (map (\<lambda>r. to_datetime_coerce P (cell_of r ''from'')) (rows (data dt)))
                    \<longrightarrow> t \<le> T)"
    if a: "get_last_from_timestamp P delta_path = Some (Timestamp T)"
  proof -
    from a obtain dt where dt: "delta_path = Some dt"
      and sm: "series_max (map (\<lambda>r. to_datetime_coerce P (cell_of r ''from'')) (rows (data dt))) = Timestamp T"
      by (auto simp: get_last_from_timestamp_def Let_def split: option.splits if_splits)
    from dt series_max_is_max[OF sm] show ?thesis by blast
  qed
  show ?thesis
  proof (intro conjI impI)
    assume x: "delta_path = None \<or> (\<exists>dt. delta_path = Some dt \<and> (''from'' \<notin> set (columns (data dt)) \<or> df_empty (data dt)))"
    show "get_last_from_timestamp P delta_path = None" by (rule A[OF x])
    show "compute_incremental_window P now delta_path =
              Some (isoformat (Timestamp (now - timedelta_days 7)), isoformat (Timestamp now))"
      by (rule none_window[OF A[OF x]])
  next
    assume x: "get_last_from_timestamp P delta_path = None"
    show "delta_path = None \<or> (\<exists>dt. delta_path = Some dt \<and> (''from'' \<notin> set (columns (data dt)) \<or> df_empty (data dt)))"
      by (rule B[OF x])
    show "compute_incremental_window P now delta_path =
              Some (isoformat (Timestamp (now - timedelta_days 7)), isoformat (Timestamp now))"
      by (rule none_window[OF x])
  next
    assume "delta_path = Some table \<and> ''from'' \<in> set (columns (data table)) \<and> \<not> df_empty (data table)
        \<and> Timestamp t \<in> set (map (\<lambda>r. to_datetime_coerce P (cell_of r ''from'')) (rows (data table)))"
    then show "\<exists>T. get_last_from_timestamp P delta_path = Some (Timestamp T) \<and> t \<le> T
              \<and> Timestamp T \<in> set (map (\<lambda>r. to_datetime_coerce P (cell_of r ''from'')) (rows (data table)))
              \<and> (\<forall>u. Timestamp u \<in> set (map (\<lambda>r. to_datetime_coerce P (cell_of r ''from'')) (rows (data table)))
                    \<longrightarrow> u \<le> T)
              \<and> compute_incremental_window P now delta_path =
                  (if now \<le> T + timedelta_minutes 30 then None
                   else Some (isoformat (Timestamp (T + timedelta_minutes 30)), isoformat (Timestamp now)))"
      by (rule C)
  next
    assume x: "get_last_from_timestamp P delta_path = Some (Timestamp T)"
    show "\<exists>dt. delta_path = Some dt
              \<and> Timestamp T \<in> set (map (\<lambda>r. to_datetime_coerce P (cell_of r ''from'')) (rows (data dt)))
              \<and> (\<forall>t. Timestamp t \<in> set (map (\<lambda>r. to_datetime_coerce P (cell_of r ''from'')) (rows (data dt)))
                    \<longrightarrow> t \<le> T)"
      by (rule D[OF x])
    show "compute_incremental_window P now delta_path =
              (if now \<le> T + timedelta_minutes 30 then None
               else Some (isoformat (Timestamp (T + timedelta_minutes 30)), isoformat (Timestamp now)))"
      by (rule some_window[OF x])
  qed
qed

theorem compute_incremental_window_cases_witness:
  "get_last_from_timestamp example_parsers None = None
   \<and> compute_incremental_window example_parsers 1704074400000000 None =
       Some (''2023-12-25T02:00:00+00:00'', ''2024-01-01T02:00:00+00:00'')
   \<and> ''from'' \<in> set (columns example_old) \<and> \<not> df_empty example_old
   \<and> map (\<lambda>r. to_datetime_coerce example_parsers (cell_of r ''from'')) (rows example_old) =
       [Timestamp 1704067200000000, Timestamp 1704069000000000]
   \<and> get_last_from_timestamp example_parsers (Some \<lparr>data = example_old, partition_by = [''date_part'']\<rparr>) =
       Some (Timestamp 1704069000000000)
   \<and> compute_incremental_window example_parsers 1704074400000000
        (Some \<lparr>data = example_old, partition_by = [''date_part'']\<rparr>) =
       Some (''2024-01-01T01:00:00+00:00'', ''2024-01-01T02:00:00+00:00'')
   \<and> compute_incremental_window example_parsers 1704070800000000
        (Some \<lparr>data = example_old, partition_by = [''date_part'']\<rparr>) = None"
proof -
  let ?tb = "\<lparr>data = example_old, partition_by = [''date_part'']\<rparr>"
  let ?st = "Some ?tb"
  have i1: "isoformat (Timestamp (1704074400000000 - timedelta_days 7)) = ''2023-12-25T02:00:00+00:00''"
    by code_simp
  have i2: "isoformat (Timestamp 1704074400000000) = ''2024-01-01T02:00:00+00:00''"
    by code_simp
  have i3: "isoformat (Timestamp (1704069000000000 + timedelta_minutes 30)) = ''2024-01-01T01:00:00+00:00''"
    by code_simp
  have g0: "get_last_from_timestamp example_parsers None = None"
    using compute_incremental_window_cases[of None example_parsers] by simp
  have w0: "compute_incremental_window example_parsers 1704074400000000 None =
       Some (''2023-12-25T02:00:00+00:00'', ''2024-01-01T02:00:00+00:00'')"
    using compute_incremental_window_cases[of None example_parsers 1704074400000000] i1 i2
    by simp
  have c: "''from'' \<in> set (columns example_old)" by (simp add: example_old_def)
  have e: "\<not> df_empty example_old" by (simp add: example_old_def df_empty_def)
  have xs: "map (\<lambda>r. to_datetime_coerce example_parsers (cell_of r ''from'')) (rows example_old) =
       [Timestamp 1704067200000000, Timestamp 1704069000000000]"
    by (simp add: example_old_def to_datetime_coerce_def to_datetime_def cell_of_def)
  have h: "?st = Some ?tb \<and> ''from'' \<in> set (columns (data ?tb)) \<and> \<not> df_empty (data ?tb)
      \<and> Timestamp 1704067200000000 \<in>
          set (map (\<lambda>r. to_datetime_coerce example_parsers (cell_of r ''from'')) (rows (data ?tb)))"
    using c e xs by simp
  have g1: "get_last_from_timestamp example_parsers ?st = Some (Timestamp 1704069000000000)"
  proof -
    from compute_incremental_window_cases[of ?st example_parsers 1704074400000000 ?tb 1704067200000000] h
    obtain T where T: "get_last_from_timestamp example_parsers ?st = Some (Timestamp T)"
      and m: "Timestamp T \<in> set (map (\<lambda>r. to_datetime_coerce example_parsers (cell_of r ''from'')) (rows (data ?tb)))"
      and u: "\<forall>u. Timestamp u \<in> set (map (\<lambda>r. to_datetime_coerce example_parsers (cell_of r ''from'')) (rows (data ?tb)))
                \<longrightarrow> u \<le> T"
      by blast
    from m xs have "T = 1704067200000000 \<or> T = 1704069000000000" by simp
    moreover from u xs have "1704069000000000 \<le> T" by simp
    ultimately have "T = 1704069000000000" by arith
    with T show ?thesis by simp
  qed
  have w1: "compute_incremental_window example_parsers 1704074400000000 ?st =
       Some (''2024-01-01T01:00:00+00:00'', ''2024-01-01T02:00:00+00:00'')"
    using compute_incremental_window_cases[of ?st example_parsers 1704074400000000 _ _ 1704069000000000] g1 i2 i3
    by (simp add: timedelta_minutes_def)
  have w2: "compute_incremental_window example_parsers 1704070800000000 ?st = None"
    using compute_incremental_window_cases[of ?st example_parsers 1704070800000000 _ _ 1704069000000000] g1
    by (simp add: timedelta_minutes_def)
  from g0 w0 c e xs g1 w1 w2 show ?thesis by simp
qed

text \<open>
  C10. When the table has rows and a \<open>from\<close> column none of whose cells can be read as
  an instant, the last stored instant is \<open>NaT\<close>, not \<open>None\<close>: the window is neither the
  seven-day window nor absent, and its start is written as the text \<open>NaT\<close>.
\<close>

theorem unparsed_from_gives_NaT_window:
  assumes "delta_path = Some dt" and "''from'' \<in> set (columns (data dt))"
    and "rows (data dt) \<noteq> []"
    and "list_all (\<lambda>r. to_datetime_coerce P (cell_of r ''from'') = NaT) (rows (data dt))"
  shows "get_last_from_timestamp P delta_path = Some NaT
       \<and> compute_incremental_window P now delta_path = Some (''NaT'', isoformat (Timestamp now))"
proof -
  from assms(2) have ne: "columns (data dt) \<noteq> []" by auto
  from assms(4) have "list_all (\<lambda>t. t = NaT) (map (\<lambda>r. to_datetime_coerce P (cell_of r ''from'')) (rows (data dt)))"
    by (simp add: list_all_iff)
  then have "series_max (map (\<lambda>r. to_datetime_coerce P (cell_of r ''from'')) (rows (data dt))) = NaT"
    by (rule series_max_all_NaT)
  with assms(1-3) ne have g: "get_last_from_timestamp P delta_path = Some NaT"
    by (simp add: get_last_from_timestamp_def Let_def df_empty_def)
  then show ?thesis by (simp add: compute_incremental_window_def)
qed

theorem unparsed_from_gives_NaT_window_witness:
  "get_last_from_timestamp example_parsers (Some \<lparr>data = example_unparsed, partition_by = [''date_part'']\<rparr>) = Some NaT
   \<and> compute_incremental_window example_parsers 1704074400000000
        (Some \<lparr>data = example_unparsed, partition_by = [''date_part'']\<rparr>) =
       Some (''NaT'', ''2024-01-01T02:00:00+00:00'')"
proof -
  let ?dt = "\<lparr>data = example_unparsed, partition_by = [''date_part'']\<rparr>"
  have h2: "''from'' \<in> set (columns (data ?dt))" by (simp add: example_unparsed_def)
  have h3: "rows (data ?dt) \<noteq> []" by (simp add: example_unparsed_def)
  have h4: "list_all (\<lambda>r. to_datetime_coerce example_parsers (cell_of r ''from'') = NaT) (rows (data ?dt))"
    by (simp add: example_unparsed_def example_parsers_def to_datetime_coerce_def to_datetime_def cell_of_def)
  have i2: "isoformat (Timestamp 1704074400000000) = ''2024-01-01T02:00:00+00:00''"
    by code_simp
  from unparsed_from_gives_NaT_window[OF refl h2 h3 h4, of 1704074400000000] i2
  show ?thesis by simp
qed

section \<open>The unified metric\<close>

text \<open>
  C6. For a bronze frame with rows and the two key columns the transform succeeds. Its
  output holds, in their order, one record for the first bronze record of each key
  \<open>(from, to)\<close>, hence one for every bronze record when the keys are pairwise different,
  and in that record \<open>intensity_value\<close> is the actual value of this bronze record when it
  is present and its forecast value otherwise; the level is the classification of that
  value, and a missing value is classified \<open>unknown\<close>. A record with a missing actual and
  forecast 42 has the value 42, and a record with neither has a missing value and the
  level \<open>unknown\<close>.
\<close>

theorem transform_intensity_fallback:
  assumes "\<not> df_empty df" and "''from'' \<in> set (columns df)" and "''to'' \<in> set (columns df)"
  shows "\<exists>out. transform_intensity P now df = Inr out
     \<and> map (\<lambda>r. (row_key [''from'', ''to''] r, cell_of r ''intensity.actual'',
                   cell_of r ''intensity.forecast'', cell_of r ''intensity_value'',
                   cell_of r ''intensity_level'')) (rows out) =
         map (\<lambda>r0. (interval_key P r0,
                    num_cell (to_numeric_coerce P (cell_of r0 ''intensity.actual'')),
                    num_cell (to_numeric_coerce P (cell_of r0 ''intensity.forecast'')),
                    spec_intensity_value P r0,
                    Str (classify_intensity (num_of_cell (spec_intensity_value P r0)))))
           (keep_first [] (interval_key P) (rows df))
     \<and> (distinct (map (interval_key P) (rows df)) \<longrightarrow>
          map (\<lambda>r. (row_key [''from'', ''to''] r, cell_of r ''intensity_value'',
                     cell_of r ''intensity_level'')) (rows out) =
          map (\<lambda>r0. (interval_key P r0, spec_intensity_value P r0,
                      Str (classify_intensity (num_of_cell (spec_intensity_value P r0)))))
            (rows df))
     \<and> (\<forall>r \<in> set (rows out).
          cell_of r ''intensity_value'' =
            (if cell_of r ''intensity.actual'' \<noteq> Null then cell_of r ''intensity.actual''
             else cell_of r ''intensity.forecast'')
        \<and> cell_of r ''intensity_level'' =
            Str (classify_intensity (num_of_cell (cell_of r ''intensity_value'')))
        \<and> (cell_of r ''intensity_value'' = Null \<longrightarrow> cell_of r ''intensity_level'' = Str ''unknown''))"
proof -
  let ?c = "coerce_datetime_column P ''to'' (coerce_datetime_column P ''from'' df)"
  let ?k = "row_key [''from'', ''to'']"
  define g where "g = (\<lambda>r0. set_cell ''to'' (\<lambda>r. time_cell (to_datetime_coerce P (cell_of r ''to'')))
          (set_cell ''from'' (\<lambda>r. time_cell (to_datetime_coerce P (cell_of r ''from''))) r0))"
  define G where "G = (\<lambda>r1.
        set_cell ''processed_ts'' (\<lambda>r. Str (isoformat (Timestamp now)))
         (set_cell ''intensity_level''
                (\<lambda>r. Str (classify_intensity (num_of_cell (cell_of r ''intensity_value''))))
          (set_cell ''intensity_value''
                 (\<lambda>r. if cell_of r ''intensity.actual'' = Null then cell_of r ''intensity.forecast''
                      else cell_of r ''intensity.actual'')
           (set_cell ''intensity.forecast''
                  (\<lambda>r. num_cell (to_numeric_coerce P (cell_of r ''intensity.forecast'')))
            (set_cell ''intensity.actual''
                   (\<lambda>r. num_cell (to_numeric_coerce P (cell_of r ''intensity.actual'')))
             (set_cell ''weekday'' (\<lambda>r. dt_day_name (cell_of r ''from''))
              (set_cell ''hour'' (\<lambda>r. dt_field dt_hour (cell_of r ''from''))
               (set_cell ''day'' (\<lambda>r. dt_field dt_day (cell_of r ''from''))
                (set_cell ''month'' (\<lambda>r. dt_field dt_month (cell_of r ''from''))
                 (set_cell ''year'' (\<lambda>r. dt_field dt_year (cell_of r ''from''))
                  (set_cell ''date'' (\<lambda>r. dt_date_text (cell_of r ''from'')) r1)))))))))))"
  have cols: "columns ?c = columns df"
    using assms(2,3) by (simp add: coerce_datetime_column_def)
  have rws: "rows ?c = map g (rows df)"
    using assms(2,3) by (simp add: coerce_datetime_column_def g_def)
  have "set [''from'', ''to''] \<subseteq> set (columns ?c)" using assms(2,3) cols by simp
  then have dd: "drop_duplicates [''from'', ''to''] ?c = Inr (?c\<lparr>rows := keep_first [] ?k (rows ?c)\<rparr>)"
    by (intro drop_duplicates_ok) simp_all
  let ?d = "?c\<lparr>rows := keep_first [] ?k (rows ?c)\<rparr>"
  have kg: "?k \<circ> g = interval_key P"
    by (rule ext) (simp add: g_def row_key_def interval_key_def)
  have rd: "rows ?d = map g (keep_first [] (interval_key P) (rows df))"
    using keep_first_map[of "[]" ?k g "rows df"] by (simp add: rws kg)
  obtain out where out: "transform_intensity P now df = Inr out"
    and rout: "rows out =
      map (set_cell ''processed_ts'' (\<lambda>r. Str (isoformat (Timestamp now))))
       (map (set_cell ''intensity_level''
              (\<lambda>r. Str (classify_intensity (num_of_cell (cell_of r ''intensity_value'')))))
        (map (set_cell ''intensity_value''
               (\<lambda>r. if cell_of r ''intensity.actual'' = Null then cell_of r ''intensity.forecast''
                    else cell_of r ''intensity.actual''))
         (map (set_cell ''intensity.forecast''
                (\<lambda>r. num_cell (to_numeric_coerce P (cell_of r ''intensity.forecast''))))
          (map (set_cell ''intensity.actual''
                 (\<lambda>r. num_cell (to_numeric_coerce P (cell_of r ''intensity.actual''))))
           (map (set_cell ''weekday'' (\<lambda>r. dt_day_name (cell_of r ''from'')))
            (map (set_cell ''hour'' (\<lambda>r. dt_field dt_hour (cell_of r ''from'')))
             (map (set_cell ''day'' (\<lambda>r. dt_field dt_day (cell_of r ''from'')))
              (map (set_cell ''month'' (\<lambda>r. dt_field dt_month (cell_of r ''from'')))
               (map (set_cell ''year'' (\<lambda>r. dt_field dt_year (cell_of r ''from'')))
                (map (set_cell ''date'' (\<lambda>r. dt_date_text (cell_of r ''from'')))
                  (rows ?d)))))))))))"
    using assms(1) by (simp add: transform_intensity_def dd Let_def del: map_map)
  have routG: "rows out = map (\<lambda>r0. G (g r0)) (keep_first [] (interval_key P) (rows df))"
    unfolding rout rd by (simp add: G_def o_def)
  have key: "row_key [''from'', ''to''] (G (g r0)) = interval_key P r0" for r0
    by (simp add: G_def g_def row_key_def interval_key_def)
  have act: "cell_of (G (g r0)) ''intensity.actual'' =
      num_cell (to_numeric_coerce P (cell_of r0 ''intensity.actual''))" for r0
    by (simp add: G_def g_def)
  have fc: "cell_of (G (g r0)) ''intensity.forecast'' =
      num_cell (to_numeric_coerce P (cell_of r0 ''intensity.forecast''))" for r0
    by (simp add: G_def g_def)
  have val: "cell_of (G (g r0)) ''intensity_value'' = spec_intensity_value P r0" for r0
    by (simp add: G_def g_def spec_intensity_value_def split: option.splits)
  have lev: "cell_of (G (g r0)) ''intensity_level'' =
      Str (classify_intensity (num_of_cell (cell_of (G (g r0)) ''intensity_value'')))" for r0
    by (simp add: G_def g_def)
  have val2: "cell_of (G (g r0)) ''intensity_value'' =
      (if cell_of (G (g r0)) ''intensity.actual'' \<noteq> Null then cell_of (G (g r0)) ''intensity.actual''
       else cell_of (G (g r0)) ''intensity.forecast'')" for r0
    by (simp add: G_def g_def)
  have 1: "map (\<lambda>r. (row_key [''from'', ''to''] r, cell_of r ''intensity.actual'',
                   cell_of r ''intensity.forecast'', cell_of r ''intensity_value'',
                   cell_of r ''intensity_level'')) (rows out) =
         map (\<lambda>r0. (interval_key P r0,
                    num_cell (to_numeric_coerce P (cell_of r0 ''intensity.actual'')),
                    num_cell (to_numeric_coerce P (cell_of r0 ''intensity.forecast'')),
                    spec_intensity_value P r0,
                    Str (classify_intensity (num_of_cell (spec_intensity_value P r0)))))
           (keep_first [] (interval_key P) (rows df))"
    unfolding routG by (simp add: o_def key act fc lev val)
  have 2: "map (\<lambda>r. (row_key [''from'', ''to''] r, cell_of r ''intensity_value'',
                     cell_of r ''intensity_level'')) (rows out) =
          map (\<lambda>r0. (interval_key P r0, spec_intensity_value P r0,
                      Str (classify_intensity (num_of_cell (spec_intensity_value P r0)))))
            (rows df)"
    if "distinct (map (interval_key P) (rows df))"
  proof -
    have "keep_first [] (interval_key P) (rows df) = rows df"
      using that by (intro keep_first_id) simp_all
    then show ?thesis unfolding routG by (simp add: o_def key lev val)
  qed
  have 3: "cell_of r ''intensity_value'' =
            (if cell_of r ''intensity.actual'' \<noteq> Null then cell_of r ''intensity.actual''
             else cell_of r ''intensity.forecast'')
        \<and> cell_of r ''intensity_level'' =
            Str (classify_intensity (num_of_cell (cell_of r ''intensity_value'')))
        \<and> (cell_of r ''intensity_value'' = Null \<longrightarrow> cell_of r ''intensity_level'' = Str ''unknown'')"
    if "r \<in> set (rows out)" for r
  proof -
    from that obtain r0 where r: "r = G (g r0)" unfolding routG by auto
    have u: "cell_of r ''intensity_value'' = Null \<longrightarrow> cell_of r ''intensity_level'' = Str ''unknown''"
      unfolding r lev[of r0] by simp
    from val2[of r0] lev[of r0] u show ?thesis unfolding r by blast
  qed
  from out 1 2 3 show ?thesis by blast
qed

theorem transform_intensity_fallback_witness:
  "\<not> df_empty example_bronze \<and> ''from'' \<in> set (columns example_bronze)
   \<and> ''to'' \<in> set (columns example_bronze)
   \<and> distinct (map (interval_key example_parsers) (rows example_bronze))
   \<and> map (\<lambda>r0. (cell_of r0 ''intensity.actual'', cell_of r0 ''intensity.forecast''))
         (rows example_bronze) = [(Num 80, Num 90), (Null, Num 42), (Null, Null)]
   \<and> (\<exists>out. transform_intensity example_parsers 1704074400000000 example_bronze = Inr out
        \<and> map (\<lambda>r. (row_key [''from'', ''to''] r, cell_of r ''intensity_value'',
                      cell_of r ''intensity_level'')) (rows out) =
            [([Time 1704067200000000, Time 1704069000000000], Num 80, Str ''low''),
             ([Time 1704069000000000, Time 1704070800000000], Num 42, Str ''low''),
             ([Time 1704070800000000, Time 1704072600000000], Null, Str ''unknown'')])"
proof -
  have h1: "\<not> df_empty example_bronze" by (simp add: example_bronze_def df_empty_def)
  have h2: "''from'' \<in> set (columns example_bronze)" by (simp add: example_bronze_def)
  have h3: "''to'' \<in> set (columns example_bronze)" by (simp add: example_bronze_def)
  have h4: "distinct (map (interval_key example_parsers) (rows example_bronze))"
    by code_simp
  have h5: "map (\<lambda>r0. (cell_of r0 ''intensity.actual'', cell_of r0 ''intensity.forecast''))
         (rows example_bronze) = [(Num 80, Num 90), (Null, Num 42), (Null, Null)]"
    by code_simp
  have ex: "map (\<lambda>r0. (interval_key example_parsers r0, spec_intensity_value example_parsers r0,
                      Str (classify_intensity (num_of_cell (spec_intensity_value example_parsers r0)))))
            (rows example_bronze) =
            [([Time 1704067200000000, Time 1704069000000000], Num 80, Str ''low''),
             ([Time 1704069000000000, Time 1704070800000000], Num 42, Str ''low''),
             ([Time 1704070800000000, Time 1704072600000000], Null, Str ''unknown'')]"
    by code_simp
  from transform_intensity_fallback[OF h1 h2 h3, of example_parsers 1704074400000000] h4
  obtain out where o: "transform_intensity example_parsers 1704074400000000 example_bronze = Inr out"
    and m: "map (\<lambda>r. (row_key [''from'', ''to''] r, cell_of r ''intensity_value'',
                     cell_of r ''intensity_level'')) (rows out) =
          map (\<lambda>r0. (interval_key example_parsers r0, spec_intensity_value example_parsers r0,
                      Str (classify_intensity (num_of_cell (spec_intensity_value example_parsers r0)))))
            (rows example_bronze)"
    by blast
  have e: "\<exists>out. transform_intensity example_parsers 1704074400000000 example_bronze = Inr out
        \<and> map (\<lambda>r. (row_key [''from'', ''to''] r, cell_of r ''intensity_value'',
                      cell_of r ''intensity_level'')) (rows out) =
            [([Time 1704067200000000, Time 1704069000000000], Num 80, Str ''low''),
             ([Time 1704069000000000, Time 1704070800000000], Num 42, Str ''low''),
             ([Time 1704070800000000, Time 1704072600000000], Null, Str ''unknown'')]"
    by (rule exI[of _ out], rule conjI, rule o, simp only: m ex)
  show ?thesis
    by (rule conjI[OF h1 conjI[OF h2 conjI[OF h3 conjI[OF h4 conjI[OF h5 e]]]]])
qed

section \<open>The full refresh of the factors\<close>




section \<open>Empty results\<close>

text \<open>
  C8, as stated, fails. A parsed body that is not a JSON object (here the empty list) has
  no \<open>get\<close>: the extraction raises \<open>AttributeError\<close> and the incremental run is aborted.
  An empty result on a first run, with no table yet, is fatal too: the empty frame has no
  \<open>date_part\<close> column to partition by, the write is refused and the run fails. And the
  upsert of an empty frame is not always a no-op on an existing table: a table with a
  repeated key loses the repeated row, and a table with rows but without a key column
  makes the upsert raise \<open>KeyError\<close>.
\<close>

theorem malformed_response_counterexample:
  "get_intensity_range example_web_list ''2023-12-25T02:00:00+00:00'' ''2024-01-01T02:00:00+00:00'' =
     Inl AttributeError
   \<and> run_incremental_intensity example_parsers example_web_list 1704074400000000 1704074400000000
       (Some \<lparr>data = example_old, partition_by = [''date_part'']\<rparr>) = Inl AttributeError
   \<and> get_intensity_range example_web_no_data ''2023-12-25T02:00:00+00:00'' ''2024-01-01T02:00:00+00:00'' =
     Inr empty_frame
   \<and> upsert_delta empty_frame None [''from'', ''to''] [''date_part''] = Inl DeltaWriteError
   \<and> run_incremental_intensity example_parsers example_web_no_data 1704074400000000 1704074400000000
       None = Inl DeltaWriteError
   \<and> upsert_delta empty_frame (Some \<lparr>data = example_duplicated, partition_by = [''date_part'']\<rparr>)
       [''from'', ''to''] [''date_part''] =
     Inr (Some \<lparr>data = \<lparr>columns = [''from'', ''to'', ''intensity.actual'', ''date_part''],
                        rows = [[(''from'', Time 1704067200000000), (''to'', Time 1704069000000000),
                                 (''intensity.actual'', Num 100), (''date_part'', Str ''2024-01-01'')]]\<rparr>,
                 partition_by = [''date_part'']\<rparr>)
   \<and> length (rows example_duplicated) = 2
   \<and> upsert_delta empty_frame (Some \<lparr>data = example_without_to, partition_by = [''date_part'']\<rparr>)
       [''from'', ''to''] [''date_part''] = Inl (KeyError [''to''])"
  by code_simp

text \<open>
  C8, amended. A response that is a JSON object without a \<open>data\<close> member, or whose
  \<open>data\<close> is the empty list, gives the empty frame without an error. Normalizing the empty
  frame returns it. Upserting it into an existing table that has the key columns and
  pairwise different keys leaves the table as it is, so an incremental run that meets
  such a response on such a table completes and changes nothing. Every transform
  (intensity detail, daily aggregate, factors) returns an empty input unchanged without
  an error.
\<close>

theorem empty_result_degrades:
  "(fst (call_api (web (''/intensity/'' @ from_iso @ ''/'' @ to_iso)) 3) = Inr (JObj kvs)
      \<and> (map_of kvs ''data'' = None \<or> map_of kvs ''data'' = Some (JArr []))
      \<longrightarrow> get_intensity_range web from_iso to_iso = Inr empty_frame
          \<and> (compute_incremental_window P now (Some \<lparr>data = old, partition_by = [''date_part'']\<rparr>) =
                Some (from_iso, to_iso)
              \<and> set [''from'', ''to''] \<subseteq> set (columns old)
              \<and> distinct (map (row_key [''from'', ''to'']) (rows old))
              \<longrightarrow> run_incremental_intensity P web now now_ingest
                      (Some \<lparr>data = old, partition_by = [''date_part'']\<rparr>) =
                    Inr (Some \<lparr>data = old, partition_by = [''date_part'']\<rparr>)))
   \<and> normalize_intensity P now empty_frame = Inr empty_frame
   \<and> normalize_factors P now empty_frame = Inr empty_frame
   \<and> (key_cols \<noteq> [] \<and> set key_cols \<subseteq> set (columns old)
      \<and> distinct (map (row_key key_cols) (rows old))
      \<longrightarrow> upsert_delta empty_frame (Some \<lparr>data = old, partition_by = parts\<rparr>) key_cols parts =
            Inr (Some \<lparr>data = old, partition_by = parts\<rparr>))
   \<and> (df_empty df
      \<longrightarrow> transform_intensity P now df = Inr df \<and> build_intensity_daily P now df = Inr df
          \<and> transform_factors P now df = Inr df)"
proof (intro conjI impI)
  assume a: "fst (call_api (web (''/intensity/'' @ from_iso @ ''/'' @ to_iso)) 3) = Inr (JObj kvs)
      \<and> (map_of kvs ''data'' = None \<or> map_of kvs ''data'' = Some (JArr []))"
  then show g: "get_intensity_range web from_iso to_iso = Inr empty_frame"
    using get_intensity_range_degrades by blast
  assume b: "compute_incremental_window P now (Some \<lparr>data = old, partition_by = [''date_part'']\<rparr>) =
                Some (from_iso, to_iso)
              \<and> set [''from'', ''to''] \<subseteq> set (columns old)
              \<and> distinct (map (row_key [''from'', ''to'']) (rows old))"
  have n: "normalize_intensity P now_ingest empty_frame = Inr empty_frame"
    by (simp add: normalize_intensity_def)
  have u: "upsert_delta empty_frame (Some \<lparr>data = old, partition_by = [''date_part'']\<rparr>)
        [''from'', ''to''] [''date_part''] =
      Inr (Some \<lparr>data = old, partition_by = [''date_part'']\<rparr>)"
    using b by (intro upsert_delta_empty_existing) simp_all
  from b g n u show "run_incremental_intensity P web now now_ingest
                      (Some \<lparr>data = old, partition_by = [''date_part'']\<rparr>) =
                    Inr (Some \<lparr>data = old, partition_by = [''date_part'']\<rparr>)"
    by (simp add: run_incremental_intensity_def)
next
  show "normalize_intensity P now empty_frame = Inr empty_frame"
    by (simp add: normalize_intensity_def)
next
  show "normalize_factors P now empty_frame = Inr empty_frame"
    by (simp add: normalize_factors_def)
next
  assume "key_cols \<noteq> [] \<and> set key_cols \<subseteq> set (columns old)
      \<and> distinct (map (row_key key_cols) (rows old))"
  then show "upsert_delta empty_frame (Some \<lparr>data = old, partition_by = parts\<rparr>) key_cols parts =
            Inr (Some \<lparr>data = old, partition_by = parts\<rparr>)"
    using upsert_delta_empty_existing by blast
next
  assume "df_empty df"
  then show "transform_intensity P now df = Inr df" by (simp add: transform_intensity_def)
next
  assume "df_empty df"
  then show "build_intensity_daily P now df = Inr df" by (simp add: build_intensity_daily_def)
next
  assume "df_empty df"
  then show "transform_factors P now df = Inr df" by (simp add: transform_factors_def)
qed

theorem empty_result_degrades_witness:
  "get_intensity_range example_web_no_data ''2024-01-01T01:00:00+00:00'' ''2024-01-01T02:00:00+00:00'' =
     Inr empty_frame
   \<and> compute_incremental_window example_parsers 1704074400000000
        (Some \<lparr>data = example_old, partition_by = [''date_part'']\<rparr>) =
      Some (''2024-01-01T01:00:00+00:00'', ''2024-01-01T02:00:00+00:00'')
   \<and> run_incremental_intensity example_parsers example_web_no_data 1704074400000000 1704074400000000
        (Some \<lparr>data = example_old, partition_by = [''date_part'']\<rparr>) =
      Inr (Some \<lparr>data = example_old, partition_by = [''date_part'']\<rparr>)
   \<and> upsert_delta empty_frame (Some \<lparr>data = example_old, partition_by = [''date_part'']\<rparr>)
        [''from'', ''to''] [''date_part''] =
      Inr (Some \<lparr>data = example_old, partition_by = [''date_part'']\<rparr>)
   \<and> df_empty empty_frame
   \<and> transform_intensity example_parsers 1704074400000000 empty_frame = Inr empty_frame
   \<and> build_intensity_daily example_parsers 1704074400000000 empty_frame = Inr empty_frame
   \<and> transform_factors example_parsers 1704074400000000 empty_frame = Inr empty_frame"
proof -
  have c: "fst (call_api (example_web_no_data
        (''/intensity/'' @ ''2024-01-01T01:00:00+00:00'' @ ''/'' @ ''2024-01-01T02:00:00+00:00'')) 3) =
      Inr (JObj [(''error'', JStr ''no data'')])"
    by (rule call_api_first_success) (simp add: example_web_no_data_def)
  have d: "map_of [(''error'', JStr ''no data'')] ''data'' = None" by simp
  have w: "compute_incremental_window example_parsers 1704074400000000
        (Some \<lparr>data = example_old, partition_by = [''date_part'']\<rparr>) =
      Some (''2024-01-01T01:00:00+00:00'', ''2024-01-01T02:00:00+00:00'')"
    by code_simp
  have k: "[''from'', ''to''] \<noteq> [] \<and> set [''from'', ''to''] \<subseteq> set (columns example_old)
      \<and> distinct (map (row_key [''from'', ''to'']) (rows example_old))"
    by (simp add: example_old_def row_key_def cell_of_def)
  have e: "df_empty empty_frame" by simp
  from c d w k e
    empty_result_degrades[of example_web_no_data "''2024-01-01T01:00:00+00:00''"
      "''2024-01-01T02:00:00+00:00''" "[(''error'', JStr ''no data'')]" example_parsers
      1704074400000000 example_old 1704074400000000 "[''from'', ''to'']" "[''date_part'']" empty_frame]
  show ?thesis by simp
qed

section \<open>The daily aggregate\<close>

text \<open>
  C4. For a day whose detail rows hold the values 80, 120 and a missing value, the daily
  aggregate has mean 100 and maximum 120, but its \<open>interval_count\<close> is 2 and not 3: the
  count, like mean and maximum, is taken over the values that are not missing, so it is
  not the number of detail rows of that date, which is what the docstring of the function
  (the number of intervals per day) announces. The same happens from bronze: three
  intervals of one day, the last with neither an actual nor a forecast value, are
  transformed into three detail rows and aggregated with the count 2.
\<close>

theorem build_intensity_daily_missing_value:
  "build_intensity_daily example_parsers 1704074400000000 example_detail =
     Inr \<lparr>columns = [''date'', ''intensity_mean'', ''intensity_max'', ''interval_count'',
                     ''year'', ''month'', ''processed_ts''],
          rows = [[(''date'', Str ''2024-01-01''), (''intensity_mean'', Num 100),
                   (''intensity_max'', Num 120), (''interval_count'', Num 2),
                   (''year'', Num 2024), (''month'', Num 1),
                   (''processed_ts'', Str ''2024-01-01T02:00:00+00:00'')]]\<rparr>
   \<and> map (\<lambda>d. (cell_of d ''date'', cell_of d ''intensity_value'')) (rows example_detail) =
       [(Str ''2024-01-01'', Num 80), (Str ''2024-01-01'', Num 120), (Str ''2024-01-01'', Null)]
   \<and> (case transform_intensity example_parsers 1704074400000000 example_bronze_day of
         Inl e \<Rightarrow> Inl e
       | Inr detail \<Rightarrow> build_intensity_daily example_parsers 1704074400000000 detail) =
       Inr example_daily
   \<and> length (rows example_bronze_day) = 3"
  by code_simp

text \<open>
  What the aggregate holds in general, for a detail frame with a \<open>date\<close> column: one row
  per date that is not missing, whose count is the number of detail rows of that date with
  a value that is not missing, whose mean and maximum are taken over those values, and
  are missing when there is none.
\<close>

theorem build_intensity_daily_aggregates:
  assumes "build_intensity_daily P now df = Inr out" and "\<not> df_empty df"
    and "''date'' \<in> set (columns df)"
  shows "distinct (map (\<lambda>r. cell_of r ''date'') (rows out))
     \<and> set (map (\<lambda>r. cell_of r ''date'') (rows out)) =
         set (map (\<lambda>d. cell_of d ''date'') (rows df)) - {Null}
     \<and> (\<forall>r \<in> set (rows out).
          (let vs = List.map_filter (\<lambda>d. num_of_cell (cell_of d ''intensity_value''))
                      (filter (\<lambda>d. cell_of d ''date'' = cell_of r ''date'') (rows df))
           in cell_of r ''interval_count'' = Num (of_nat (length vs))
            \<and> length vs =
                length (filter (\<lambda>d. cell_of d ''date'' = cell_of r ''date''
                                  \<and> cell_of d ''intensity_value'' \<noteq> Null) (rows df))
            \<and> cell_of r ''intensity_mean'' =
                (if vs = [] then Null else Num (sum_list vs / of_nat (length vs)))
            \<and> cell_of r ''intensity_max'' =
                (if vs = [] then Null else Num (Max (set vs)))))"
proof -
  let ?labels = "group_labels (map (\<lambda>r. cell_of r ''date'') (rows df))"
  from assms have num: "list_all (\<lambda>r. numeric_or_missing (cell_of r ''intensity_value'')) (rows df)"
    by (simp add: build_intensity_daily_def Let_def split: if_splits)
  from assms have rout: "rows out = map (daily_row P now (rows df)) ?labels"
    by (auto simp: build_intensity_daily_def Let_def split: if_splits)
  have dates: "map (\<lambda>r. cell_of r ''date'') (rows out) = ?labels"
    unfolding rout by (simp add: daily_row_cells o_def)
  have 1: "distinct (map (\<lambda>r. cell_of r ''date'') (rows out))"
    unfolding dates by (rule distinct_group_labels)
  have 2: "set (map (\<lambda>r. cell_of r ''date'') (rows out)) =
         set (map (\<lambda>d. cell_of d ''date'') (rows df)) - {Null}"
    unfolding dates by (rule set_group_labels)
  have 3: "(let vs = List.map_filter (\<lambda>d. num_of_cell (cell_of d ''intensity_value''))
                      (filter (\<lambda>d. cell_of d ''date'' = cell_of r ''date'') (rows df))
           in cell_of r ''interval_count'' = Num (of_nat (length vs))
            \<and> length vs =
                length (filter (\<lambda>d. cell_of d ''date'' = cell_of r ''date''
                                  \<and> cell_of d ''intensity_value'' \<noteq> Null) (rows df))
            \<and> cell_of r ''intensity_mean'' =
                (if vs = [] then Null else Num (sum_list vs / of_nat (length vs)))
            \<and> cell_of r ''intensity_max'' =
                (if vs = [] then Null else Num (Max (set vs))))"
    if "r \<in> set (rows out)" for r
  proof -
    from that obtain label where r: "r = daily_row P now (rows df) label"
      unfolding rout by auto
    let ?vs = "group_values ''date'' ''intensity_value'' label (rows df)"
    have d: "cell_of r ''date'' = label" unfolding r by (simp add: daily_row_cells)
    have vs: "List.map_filter (\<lambda>d. num_of_cell (cell_of d ''intensity_value''))
                (filter (\<lambda>d. cell_of d ''date'' = cell_of r ''date'') (rows df)) = ?vs"
      unfolding d by (simp add: group_values_def)
    have c: "cell_of r ''interval_count'' = Num (of_nat (length ?vs))"
      unfolding r by (simp add: daily_row_cells agg_count_def)
    have l: "length ?vs = length (filter (\<lambda>d. cell_of d ''date'' = cell_of r ''date''
                                  \<and> cell_of d ''intensity_value'' \<noteq> Null) (rows df))"
      unfolding d using num by (rule length_group_values)
    have m: "cell_of r ''intensity_mean'' =
                (if ?vs = [] then Null else Num (sum_list ?vs / of_nat (length ?vs)))"
      unfolding r by (simp add: daily_row_cells agg_mean_mean)
    have x: "cell_of r ''intensity_max'' = (if ?vs = [] then Null else Num (Max (set ?vs)))"
      unfolding r by (simp add: daily_row_cells agg_max_Max)
    show ?thesis unfolding vs Let_def using c l m x by simp
  qed
  from 1 2 3 show ?thesis by blast
qed

theorem build_intensity_daily_aggregates_example:
  "build_intensity_daily example_parsers 1704074400000000 example_detail = Inr example_daily
   \<and> \<not> df_empty example_detail
   \<and> ''date'' \<in> set (columns example_detail)
   \<and> (distinct (map (\<lambda>r. cell_of r ''date'') (rows example_daily))
     \<and> set (map (\<lambda>r. cell_of r ''date'') (rows example_daily)) =
         set (map (\<lambda>d. cell_of d ''date'') (rows example_detail)) - {Null}
     \<and> (\<forall>r \<in> set (rows example_daily).
          (let vs = List.map_filter (\<lambda>d. num_of_cell (cell_of d ''intensity_value''))
                      (filter (\<lambda>d. cell_of d ''date'' = cell_of r ''date'') (rows example_detail))
           in cell_of r ''interval_count'' = Num (of_nat (length vs))
            \<and> length vs =
                length (filter (\<lambda>d. cell_of d ''date'' = cell_of r ''date''
                                  \<and> cell_of d ''intensity_value'' \<noteq> Null) (rows example_detail))
            \<and> cell_of r ''intensity_mean'' =
                (if vs = [] then Null else Num (sum_list vs / of_nat (length vs)))
            \<and> cell_of r ''intensity_max'' =
                (if vs = [] then Null else Num (Max (set vs))))))"
proof -
  have h1: "build_intensity_daily example_parsers 1704074400000000 example_detail = Inr example_daily"
    by code_simp
  have h2: "\<not> df_empty example_detail" by (simp add: example_detail_def df_empty_def)
  have h3: "''date'' \<in> set (columns example_detail)" by (simp add: example_detail_def)
  show ?thesis
    by (rule conjI[OF h1 conjI[OF h2 conjI[OF h3 build_intensity_daily_aggregates[OF h1 h2 h3]]]])
qed

end
